(* ===== verification/Prelude.thy ===== *)
theory Prelude
  imports Main "HOL-Library.Multiset"
begin

text \<open>
  Shared vocabulary of the browser model: the types of identifiers, URLs and times, and
  the JavaScript idioms the sources use everywhere, written as executable HOL functions:
  truthiness of a possibly absent string (\<open>null\<close>/\<open>undefined\<close> are \<open>None\<close>), the
  operator \<open>a || b\<close>, \<open>String.prototype.startsWith\<close> and \<open>includes\<close> (\<open>str_includes\<close>),
  \<open>Array.prototype.findIndex\<close> (\<open>-1\<close> is \<open>None\<close>) and the indexed read \<open>xs[i]\<close>
  (\<open>undefined\<close> out of range is \<open>None\<close>).  The lemmas here are the generic facts the
  component theories share; the evaluation rules are collected in \<open>js_simps\<close>.
\<close>

type_synonym url = string
type_synonym tab_id = string
type_synonym timestamp = nat

text \<open>A JavaScript number is kept as the string \<open>String(x)\<close> gives for it.\<close>

type_synonym jsnum = string

named_theorems js_simps "evaluation rules of the JavaScript helpers"

subsection \<open>Truthiness and the \<open>||\<close> operator\<close>

fun truthy :: "string option \<Rightarrow> bool" where
  "truthy None = False"
| "truthy (Some s) = (s \<noteq> [])"

text \<open>\<open>a || b\<close> on values that may be absent.\<close>

definition js_or :: "string option \<Rightarrow> string option \<Rightarrow> string option" where
  "js_or a b = (if truthy a then a else b)"

text \<open>\<open>a || b\<close> on strings that are always present (the empty string is falsy).\<close>

definition str_or :: "string \<Rightarrow> string \<Rightarrow> string" where
  "str_or a b = (if a = [] then b else a)"

subsection \<open>String predicates\<close>

fun startsWith :: "string \<Rightarrow> string \<Rightarrow> bool" where
  "startsWith s [] = True"
| "startsWith [] (c # cs) = False"
| "startsWith (x # xs) (c # cs) = (x = c \<and> startsWith xs cs)"

fun str_includes :: "string \<Rightarrow> string \<Rightarrow> bool" where
  "str_includes [] p = (p = [])"
| "str_includes (c # s) p = (startsWith (c # s) p \<or> str_includes s p)"

text \<open>\<open>s.replace(p, r)\<close> with a string pattern: only the first occurrence is replaced.\<close>

fun replace_first :: "string \<Rightarrow> string \<Rightarrow> string \<Rightarrow> string" where
  "replace_first p r [] = (if p = [] then r else [])"
| "replace_first p r (c # s) =
     (if startsWith (c # s) p then r @ drop (length p) (c # s) else c # replace_first p r s)"

subsection \<open>Array helpers\<close>

fun findIndex :: "('a \<Rightarrow> bool) \<Rightarrow> 'a list \<Rightarrow> nat option" where
  "findIndex P [] = None"
| "findIndex P (x # xs) = (if P x then Some 0 else map_option Suc (findIndex P xs))"

fun nth_opt :: "'a list \<Rightarrow> nat \<Rightarrow> 'a option" where
  "nth_opt [] i = None"
| "nth_opt (x # xs) 0 = Some x"
| "nth_opt (x # xs) (Suc i) = nth_opt xs i"

declare js_or_def [js_simps] str_or_def [js_simps]

subsection \<open>Generic lemmas\<close>

lemma startsWith_append_conv [simp]: "startsWith s p \<longleftrightarrow> (\<exists>r. s = p @ r)"
  by (induction s p rule: startsWith.induct) auto

lemma startsWith_append [simp]: "startsWith (p @ r) p"
  by simp

lemma findIndex_None_iff [simp]: "findIndex P xs = None \<longleftrightarrow> (\<forall>x\<in>set xs. \<not> P x)"
  by (induction xs) auto

lemma findIndex_Some:
  "findIndex P xs = Some i \<Longrightarrow> i < length xs \<and> P (xs ! i) \<and> (\<forall>j<i. \<not> P (xs ! j))"
proof (induction xs arbitrary: i)
  case Nil
  then show ?case by simp
next
  case (Cons x xs)
  show ?case
  proof (cases "P x")
    case True
    with Cons.prems show ?thesis by simp
  next
    case False
    with Cons.prems obtain k where k: "findIndex P xs = Some k" and i: "i = Suc k"
      by auto
    from Cons.IH [OF k] False i show ?thesis
      by (auto simp: less_Suc_eq_0_disj)
  qed
qed

lemma findIndex_first: "\<forall>u\<in>set l. \<not> P u \<Longrightarrow> P t \<Longrightarrow> findIndex P (l @ t # r) = Some (length l)"
  by (induction l) auto

lemma findIndex_Some_iff_ex: "(\<exists>i. findIndex P xs = Some i) \<longleftrightarrow> (\<exists>x\<in>set xs. P x)"
  using findIndex_None_iff [of P xs] by (cases "findIndex P xs") auto

lemma nth_opt_conv: "nth_opt xs i = (if i < length xs then Some (xs ! i) else None)"
  by (induction xs i rule: nth_opt.induct) auto

lemma nth_opt_set: "nth_opt xs i = Some x \<Longrightarrow> x \<in> set xs"
  by (auto simp: nth_opt_conv split: if_splits)

lemma js_or_cases: "js_or a b = a \<or> js_or a b = b"
  by (simp add: js_or_def)

lemma js_or_self [simp]: "js_or f f = f"
  by (simp add: js_or_def)

lemma mset_partition_append [simp]:
  "mset (filter P xs @ filter (\<lambda>x. \<not> P x) xs) = mset xs"
  by (induction xs) auto

lemma mset_map_partition:
  "mset (map f (filter P xs @ filter (\<lambda>x. \<not> P x) xs)) = mset (map f xs)"
  by (metis mset_map mset_partition_append)

lemma set_partition_append:
  "set (filter P xs @ filter (\<lambda>x. \<not> P x) xs) = set xs"
  by auto

lemma distinct_map_filter:
  "distinct (map f xs) \<Longrightarrow> distinct (map f (filter P xs))"
  by (induction xs) auto

lemma distinct_map_partition:
  "distinct (map f (filter P xs @ filter (\<lambda>x. \<not> P x) xs)) = distinct (map f xs)"
proof -
  have "mset (map f (filter P xs @ filter (\<lambda>x. \<not> P x) xs)) = mset (map f xs)"
    by (metis mset_map mset_partition_append)
  then show ?thesis by (rule mset_eq_imp_distinct_iff)
qed

end
