(* ===== verification/Tabs.thy ===== *)
theory Tabs
  imports Prelude
begin

text \<open>
  The session registry of \<open>src/src/src/App.jsx\<close>: the React state \<open>tabs\<close> (an array of
  tab objects) and \<open>activeTab\<close> (an id, initially \<open>null\<close>), with the operations
  \<open>addTab\<close>, \<open>togglePinTab\<close>, \<open>closeTab\<close>, \<open>setActiveTab\<close> and the tab part of
  \<open>updateTab\<close>.  \<open>closeTab\<close> does not set the active tab itself: it schedules
  \<open>setTimeout(() => setActiveTab(id), 0)\<close>.  Those pending callbacks are state of the
  program, kept here as the FIFO queue \<open>timers\<close>; \<open>fireTimer\<close> runs the oldest.
  Tab ids come from \<open>Math.random\<close>; the model takes the generated id as an argument.
\<close>

abbreviation NEWTAB_URL :: url where
  "NEWTAB_URL \<equiv> ''browser://newtab''"

record tab =
  tab_id :: tab_id
  tab_title :: string
  tab_url :: url
  tab_isPinned :: bool
  tab_isLoading :: bool
  tab_favicon :: "string option"

record app =
  tabs :: "tab list"
  activeTab :: "tab_id option"
  timers :: "tab_id option list"

abbreviation tab_ids :: "app \<Rightarrow> tab_id list" where
  "tab_ids s \<equiv> map tab_id (tabs s)"

subsection \<open>Operations\<close>

definition app_init :: app where
  "app_init = \<lparr>tabs = [], activeTab = None, timers = []\<rparr>"

text \<open>The mount effect that creates the first tab (App.jsx, lines 28--41).\<close>

definition initialTab :: "tab_id \<Rightarrow> app \<Rightarrow> app" where
  "initialTab i s = s\<lparr>tabs := [\<lparr>tab_id = i, tab_title = ''New Tab'', tab_url = NEWTAB_URL,
      tab_isPinned = False, tab_isLoading = False, tab_favicon = None\<rparr>], activeTab := Some i\<rparr>"

definition addTab :: "tab_id \<Rightarrow> url \<Rightarrow> string \<Rightarrow> bool \<Rightarrow> app \<Rightarrow> app" where
  "addTab i u t p s = s\<lparr>tabs := tabs s @ [\<lparr>tab_id = i, tab_title = str_or t ''New Tab'', tab_url = u,
      tab_isPinned = p, tab_isLoading = False, tab_favicon = None\<rparr>], activeTab := Some i\<rparr>"

text \<open>The arrow function \<open>t => t.id === id ? {...t, isPinned: !t.isPinned} : t\<close>.\<close>

definition flipPin :: "tab_id \<Rightarrow> tab \<Rightarrow> tab" where
  "flipPin x t = (if tab_id t = x then t\<lparr>tab_isPinned := \<not> tab_isPinned t\<rparr> else t)"

definition togglePinTab :: "tab_id \<Rightarrow> app \<Rightarrow> app" where
  "togglePinTab x s =
     (let updated = map (flipPin x) (tabs s)
      in s\<lparr>tabs := filter tab_isPinned updated @ filter (\<lambda>t. \<not> tab_isPinned t) updated\<rparr>)"

text \<open>
  The tab synthesised when the last tab is closed (line 79) has no \<open>isLoading\<close> and no
  \<open>favicon\<close> field; reading them gives \<open>undefined\<close>, falsy as \<open>False\<close> and
  \<open>None\<close> are.
\<close>

definition closed_default_tab :: "tab_id \<Rightarrow> tab" where
  "closed_default_tab i = \<lparr>tab_id = i, tab_title = ''New Tab'', tab_url = NEWTAB_URL,
      tab_isPinned = False, tab_isLoading = False, tab_favicon = None\<rparr>"

definition closeTab :: "tab_id \<Rightarrow> tab_id \<Rightarrow> app \<Rightarrow> app" where
  "closeTab newId x s =
     (case findIndex (\<lambda>t. tab_id t = x) (tabs s) of
        None \<Rightarrow> s
      | Some index \<Rightarrow>
          (let newTabs = filter (\<lambda>t. tab_id t \<noteq> x) (tabs s) in
           if newTabs = [] then
             s\<lparr>tabs := [closed_default_tab newId], timers := timers s @ [Some newId]\<rparr>
           else if activeTab s = Some x then
             (let nextIndex = index - 1;
                  nextId = js_or (map_option tab_id (nth_opt newTabs nextIndex))
                                 (map_option tab_id (nth_opt newTabs 0))
              in s\<lparr>tabs := newTabs, timers := timers s @ [nextId]\<rparr>)
           else s\<lparr>tabs := newTabs\<rparr>))"

definition setActiveTab :: "tab_id \<Rightarrow> app \<Rightarrow> app" where
  "setActiveTab x s = s\<lparr>activeTab := Some x\<rparr>"

text \<open>The state update of \<open>updateTab\<close> (lines 108--112): only the active tab changes.\<close>

definition updateActiveTab :: "url \<Rightarrow> string \<Rightarrow> bool \<Rightarrow> string option \<Rightarrow> app \<Rightarrow> app" where
  "updateActiveTab u t l f s =
     s\<lparr>tabs := map (\<lambda>tb. if Some (tab_id tb) = activeTab s
                         then tb\<lparr>tab_title := str_or t (tab_title tb), tab_url := str_or u (tab_url tb),
                                 tab_isLoading := l, tab_favicon := js_or f (tab_favicon tb)\<rparr>
                         else tb) (tabs s)\<rparr>"

text \<open>The event loop runs the oldest pending \<open>setTimeout\<close> callback.\<close>

fun fireTimer :: "app \<Rightarrow> app" where
  "fireTimer s = (case timers s of [] \<Rightarrow> s | a # rest \<Rightarrow> s\<lparr>activeTab := a, timers := rest\<rparr>)"

text \<open>Running every pending callback at once: the last scheduled activation wins.\<close>

definition drain :: "app \<Rightarrow> app" where
  "drain s = (if timers s = [] then s else s\<lparr>activeTab := last (timers s), timers := []\<rparr>)"

subsection \<open>Well-formedness\<close>

fun pinned_first :: "tab list \<Rightarrow> bool" where
  "pinned_first [] = True"
| "pinned_first (t # ts) =
     (if tab_isPinned t then pinned_first ts else list_all (\<lambda>u. \<not> tab_isPinned u) ts)"

definition active_ok :: "app \<Rightarrow> bool" where
  "active_ok s \<longleftrightarrow> (case activeTab s of None \<Rightarrow> False | Some a \<Rightarrow> a \<in> set (tab_ids s))"

text \<open>
  The registry invariant: distinct ids, at least one tab, pinned tabs first.  A settled
  registry (no callback pending) also has an active id that names one of its tabs.
\<close>

definition registry_ok :: "app \<Rightarrow> bool" where
  "registry_ok s \<longleftrightarrow> distinct (tab_ids s) \<and> tabs s \<noteq> [] \<and> pinned_first (tabs s)"

definition wf_app :: "app \<Rightarrow> bool" where
  "wf_app s \<longleftrightarrow> registry_ok s \<and> active_ok s \<and> timers s = []"

subsection \<open>User commands\<close>

text \<open>
  The registry commands the UI issues: \<open>addTab(url, title)\<close> (every caller leaves
  \<open>isPinned\<close> at its default \<open>false\<close>), \<open>closeTab(id)\<close> (with the id
  \<open>Math.random\<close> would give a synthesised tab), \<open>togglePinTab\<close>, \<open>setActiveTab\<close> from
  a click on a rendered tab, and \<open>updateTab\<close>'s state update.
\<close>

datatype tab_cmd =
    CAdd tab_id url string
  | CClose tab_id tab_id
  | CPin tab_id
  | CSelect tab_id
  | CUpdate url string bool "string option"

fun apply_cmd :: "tab_cmd \<Rightarrow> app \<Rightarrow> app" where
  "apply_cmd (CAdd i u t) s = addTab i u t False s"
| "apply_cmd (CClose n x) s = closeTab n x s"
| "apply_cmd (CPin x) s = togglePinTab x s"
| "apply_cmd (CSelect x) s = setActiveTab x s"
| "apply_cmd (CUpdate u t l f) s = updateActiveTab u t l f s"

text \<open>A generated id is fresh; a click selects a tab that is rendered.\<close>

fun cmd_ok :: "tab_cmd \<Rightarrow> app \<Rightarrow> bool" where
  "cmd_ok (CAdd i u t) s = (i \<notin> set (tab_ids s))"
| "cmd_ok (CClose n x) s = True"
| "cmd_ok (CPin x) s = True"
| "cmd_ok (CSelect x) s = (x \<in> set (tab_ids s))"
| "cmd_ok (CUpdate u t l f) s = True"

text \<open>
  Settled runs: every command is followed by the pending callbacks before the next user
  event.  Interleaved runs: a callback may fire at any point, also after further commands.
\<close>

inductive settled :: "app \<Rightarrow> bool" where
  start: "settled (initialTab i app_init)"
| step: "settled s \<Longrightarrow> cmd_ok c s \<Longrightarrow> settled (drain (apply_cmd c s))"

inductive interleaved :: "app \<Rightarrow> bool" where
  start: "interleaved (initialTab i app_init)"
| cmd: "interleaved s \<Longrightarrow> cmd_ok c s \<Longrightarrow> interleaved (apply_cmd c s)"
| fire: "interleaved s \<Longrightarrow> interleaved (fireTimer s)"

subsection \<open>Lemmas on the operations\<close>


lemma pinned_first_unpinned: "\<forall>u\<in>set xs. \<not> tab_isPinned u \<Longrightarrow> pinned_first xs"
  by (induction xs) (auto simp: list_all_iff)

lemma pinned_first_append:
  "\<forall>u\<in>set xs. tab_isPinned u \<Longrightarrow> \<forall>u\<in>set ys. \<not> tab_isPinned u \<Longrightarrow> pinned_first (xs @ ys)"
  by (induction xs) (auto intro: pinned_first_unpinned)

lemma pinned_first_partition: "pinned_first (filter tab_isPinned ys @ filter (\<lambda>t. \<not> tab_isPinned t) ys)"
  by (rule pinned_first_append) auto

lemma pinned_first_filter: "pinned_first xs \<Longrightarrow> pinned_first (filter P xs)"
  by (induction xs) (auto simp: list_all_iff intro: pinned_first_unpinned)

lemma pinned_first_snoc: "pinned_first xs \<Longrightarrow> \<not> tab_isPinned t \<Longrightarrow> pinned_first (xs @ [t])"
  by (induction xs) (auto simp: list_all_iff)

lemma activeTab_closeTab [simp]: "activeTab (closeTab n x s) = activeTab s"
  by (simp add: closeTab_def Let_def split: option.split)

lemma closeTab_absent: "x \<notin> set (tab_ids s) \<Longrightarrow> closeTab n x s = s"
proof -
  assume "x \<notin> set (tab_ids s)"
  then have "findIndex (\<lambda>t. tab_id t = x) (tabs s) = None" by auto
  then show ?thesis by (simp add: closeTab_def del: findIndex_None_iff)
qed

lemma tabs_closeTab:
  "tabs (closeTab n x s) =
     (if x \<notin> set (tab_ids s) then tabs s
      else if filter (\<lambda>t. tab_id t \<noteq> x) (tabs s) = [] then [closed_default_tab n]
      else filter (\<lambda>t. tab_id t \<noteq> x) (tabs s))"
proof (cases "findIndex (\<lambda>t. tab_id t = x) (tabs s)")
  case None
  then have "x \<notin> set (tab_ids s)" by auto
  then show ?thesis by (simp add: closeTab_absent)
next
  case (Some i)
  then have "x \<in> set (tab_ids s)" using findIndex_Some by fastforce
  with Some show ?thesis by (simp add: closeTab_def Let_def)
qed

lemma js_or_next_in:
  "ys \<noteq> [] \<Longrightarrow> \<exists>t\<in>set ys. js_or (map_option tab_id (nth_opt ys k)) (map_option tab_id (nth_opt ys 0))
      = Some (tab_id t)"
proof -
  assume ne: "ys \<noteq> []"
  show ?thesis
  proof (cases "truthy (map_option tab_id (nth_opt ys k))")
    case True
    then obtain t where t: "nth_opt ys k = Some t" by (cases "nth_opt ys k") auto
    with True show ?thesis by (auto simp: js_or_def dest: nth_opt_set)
  next
    case False
    from ne obtain t ts where "ys = t # ts" by (cases ys) auto
    with False show ?thesis by (auto simp: js_or_def)
  qed
qed

lemma timers_closeTab:
  "timers (closeTab n x s) = timers s \<or>
   (\<exists>a. timers (closeTab n x s) = timers s @ [Some a] \<and> a \<in> set (tab_ids (closeTab n x s)))"
proof (cases "findIndex (\<lambda>t. tab_id t = x) (tabs s)")
  case None
  then have "x \<notin> set (tab_ids s)" by auto
  then show ?thesis by (simp add: closeTab_absent)
next
  case (Some i)
  let ?ys = "filter (\<lambda>t. tab_id t \<noteq> x) (tabs s)"
  show ?thesis
  proof (cases "?ys = [] \<or> activeTab s \<noteq> Some x")
    case True
    with Some show ?thesis by (auto simp: closeTab_def Let_def closed_default_tab_def)
  next
    case False
    then obtain t where t_in: "t \<in> set ?ys" and
      t: "js_or (map_option tab_id (nth_opt ?ys (i - 1))) (map_option tab_id (nth_opt ?ys 0)) = Some (tab_id t)"
      using js_or_next_in [of ?ys "i - 1"] by blast
    have "closeTab n x s = s\<lparr>tabs := ?ys, timers := timers s @ [Some (tab_id t)]\<rparr>"
      using Some False t by (simp add: closeTab_def Let_def)
    with t_in show ?thesis by auto
  qed
qed

lemma drain_idle [simp]: "timers s = [] \<Longrightarrow> drain s = s"
  by (simp add: drain_def)

lemma tabs_drain [simp]: "tabs (drain s) = tabs s"
  by (simp add: drain_def)

lemma timers_drain [simp]: "timers (drain s) = []"
  by (simp add: drain_def)

lemma pinned_first_map:
  "\<forall>t. tab_isPinned (g t) = tab_isPinned t \<Longrightarrow> pinned_first (map g xs) = pinned_first xs"
  by (induction xs) (auto simp: list_all_iff)

lemma tab_ids_updateActiveTab [simp]: "tab_ids (updateActiveTab u t l f s) = tab_ids s"
  by (simp add: updateActiveTab_def comp_def)

lemma activeTab_updateActiveTab [simp]: "activeTab (updateActiveTab u t l f s) = activeTab s"
  by (simp add: updateActiveTab_def)

lemma timers_updateActiveTab [simp]: "timers (updateActiveTab u t l f s) = timers s"
  by (simp add: updateActiveTab_def)

lemma tabs_updateActiveTab_Nil [simp]: "tabs (updateActiveTab u t l f s) = [] \<longleftrightarrow> tabs s = []"
  by (simp add: updateActiveTab_def)

lemma pinned_first_updateActiveTab [simp]:
  "pinned_first (tabs (updateActiveTab u t l f s)) = pinned_first (tabs s)"
  unfolding updateActiveTab_def by (simp add: pinned_first_map)

lemma tab_id_flipPin [simp]: "tab_id (flipPin x t) = tab_id t"
  by (simp add: flipPin_def)

lemma tabs_togglePinTab:
  "tabs (togglePinTab x s) = filter tab_isPinned (map (flipPin x) (tabs s))
      @ filter (\<lambda>t. \<not> tab_isPinned t) (map (flipPin x) (tabs s))"
  by (simp add: togglePinTab_def Let_def)

lemma mset_ids_togglePinTab: "mset (tab_ids (togglePinTab x s)) = mset (tab_ids s)"
  unfolding tabs_togglePinTab mset_map_partition by (simp add: comp_def)

lemma set_ids_togglePinTab [simp]: "tab_id ` set (tabs (togglePinTab x s)) = tab_id ` set (tabs s)"
  by (metis mset_ids_togglePinTab set_mset_mset set_map)

lemma activeTab_togglePinTab [simp]: "activeTab (togglePinTab x s) = activeTab s"
  by (simp add: togglePinTab_def Let_def)

lemma timers_togglePinTab [simp]: "timers (togglePinTab x s) = timers s"
  by (simp add: togglePinTab_def Let_def)

lemma registry_ok_togglePinTab: "registry_ok s \<Longrightarrow> registry_ok (togglePinTab x s)"
proof -
  assume ok: "registry_ok s"
  have "distinct (tab_ids (togglePinTab x s))"
    using ok mset_ids_togglePinTab [of x s] by (metis registry_ok_def mset_eq_imp_distinct_iff)
  moreover have "tabs (togglePinTab x s) \<noteq> []"
    using ok set_ids_togglePinTab [of x s] by (auto simp: registry_ok_def simp del: set_ids_togglePinTab)
  moreover have "pinned_first (tabs (togglePinTab x s))"
    by (simp add: tabs_togglePinTab pinned_first_partition)
  ultimately show ?thesis by (simp add: registry_ok_def)
qed

lemma registry_ok_closeTab: "registry_ok s \<Longrightarrow> registry_ok (closeTab n x s)"
  by (auto simp: registry_ok_def tabs_closeTab closed_default_tab_def distinct_map_filter pinned_first_filter)

lemma registry_ok_addTab:
  "registry_ok s \<Longrightarrow> i \<notin> set (tab_ids s) \<Longrightarrow> registry_ok (addTab i u t False s)"
  by (simp add: registry_ok_def addTab_def pinned_first_snoc)

lemma active_ok_drain_closeTab:
  assumes "active_ok s" and "timers s = []"
  shows "active_ok (drain (closeTab n x s))"
proof (cases "findIndex (\<lambda>t. tab_id t = x) (tabs s)")
  case None
  then have "x \<notin> set (tab_ids s)" by auto
  with assms show ?thesis by (simp add: closeTab_absent)
next
  case (Some i)
  let ?ys = "filter (\<lambda>t. tab_id t \<noteq> x) (tabs s)"
  consider (last) "?ys = []" | (other) "?ys \<noteq> []" "activeTab s \<noteq> Some x"
    | (active) "?ys \<noteq> []" "activeTab s = Some x" by blast
  then show ?thesis
  proof cases
    case last
    with Some assms show ?thesis
      by (simp add: closeTab_def drain_def active_ok_def closed_default_tab_def)
  next
    case other
    with Some assms show ?thesis
      by (auto simp: closeTab_def Let_def active_ok_def split: option.splits)
  next
    case active
    then obtain t where t_in: "t \<in> set ?ys" and
      t: "js_or (map_option tab_id (nth_opt ?ys (i - 1))) (map_option tab_id (nth_opt ?ys 0)) = Some (tab_id t)"
      using js_or_next_in [of ?ys "i - 1"] by blast
    have "closeTab n x s = s\<lparr>tabs := ?ys, timers := timers s @ [Some (tab_id t)]\<rparr>"
      using Some active t by (simp add: closeTab_def Let_def)
    with t_in assms show ?thesis by (simp add: drain_def active_ok_def)
  qed
qed

lemma wf_apply_cmd:
  assumes wf: "wf_app s" and ok: "cmd_ok c s"
  shows "wf_app (drain (apply_cmd c s))"
proof (cases c)
  case (CAdd i u t)
  have "registry_ok (addTab i u t False s)"
    using wf ok CAdd by (simp add: wf_app_def registry_ok_addTab)
  moreover have "active_ok (addTab i u t False s)" by (simp add: active_ok_def addTab_def)
  moreover have "timers (addTab i u t False s) = []" using wf by (simp add: wf_app_def addTab_def)
  ultimately show ?thesis using CAdd by (simp add: wf_app_def)
next
  case (CClose n x)
  then show ?thesis
    using wf registry_ok_closeTab [of s n x] active_ok_drain_closeTab [of s n x]
    by (simp add: wf_app_def registry_ok_def)
next
  case (CPin x)
  then show ?thesis
    using wf registry_ok_togglePinTab [of s x] by (simp add: wf_app_def active_ok_def split: option.splits)
next
  case (CSelect x)
  then show ?thesis
    using wf ok by (simp add: wf_app_def registry_ok_def active_ok_def setActiveTab_def)
next
  case (CUpdate u t l f)
  then show ?thesis
    using wf by (simp add: wf_app_def registry_ok_def active_ok_def split: option.splits)
qed

lemma wf_initialTab: "wf_app (initialTab i app_init)"
  by (simp add: wf_app_def registry_ok_def active_ok_def initialTab_def app_init_def)

lemma settled_wf: "settled s \<Longrightarrow> wf_app s"
  by (induction rule: settled.induct) (auto intro: wf_initialTab wf_apply_cmd)


subsection \<open>Properties of the registry\<close>
lemma map_flipPin_other: "x \<notin> set (map tab_id xs) \<Longrightarrow> map (flipPin x) xs = xs"
  by (induction xs) (auto simp: flipPin_def)


lemma filter_other_ids: "x \<notin> set (map tab_id xs) \<Longrightarrow> filter (\<lambda>u. tab_id u \<noteq> x) xs = xs"
  by (induction xs) auto


text \<open>Claim C2: Closing the only remaining tab leaves exactly one tab, the default new-tab page, and once the scheduled activation has run it is the active tab: the registry never becomes empty.\<close>

theorem close_last_tab:
  assumes "tabs s = [t]" and "timers s = []"
  shows "drain (closeTab n (tab_id t) s) = s\<lparr>tabs := [closed_default_tab n], activeTab := Some n\<rparr>"
  using assms by (simp add: closeTab_def drain_def)


text \<open>Claim C3: Pinning an unpinned tab moves it to the end of the pinned block; the pinned tabs and the other unpinned tabs keep their relative order (a stable partition).\<close>

theorem togglePin_pins_stably:
  assumes s: "tabs s = P @ U1 @ t # U2" and d: "distinct (tab_ids s)"
    and p: "\<forall>p\<in>set P. tab_isPinned p" and u: "\<forall>u\<in>set (U1 @ t # U2). \<not> tab_isPinned u"
  shows "tabs (togglePinTab (tab_id t) s) = P @ t\<lparr>tab_isPinned := True\<rparr> # U1 @ U2"
proof -
  let ?x = "tab_id t"
  from s d have nP: "?x \<notin> set (map tab_id P)" and nU1: "?x \<notin> set (map tab_id U1)"
    and nU2: "?x \<notin> set (map tab_id U2)" by auto
  have "map (flipPin ?x) (tabs s) = P @ U1 @ t\<lparr>tab_isPinned := True\<rparr> # U2"
    using s u map_flipPin_other [OF nP] map_flipPin_other [OF nU1] map_flipPin_other [OF nU2]
    by (simp add: flipPin_def)
  with p u show ?thesis by (simp add: tabs_togglePinTab)
qed


theorem togglePin_unpins_stably:
  assumes s: "tabs s = P1 @ t # P2 @ U" and d: "distinct (tab_ids s)"
    and p: "\<forall>p\<in>set (P1 @ t # P2). tab_isPinned p" and u: "\<forall>u\<in>set U. \<not> tab_isPinned u"
  shows "tabs (togglePinTab (tab_id t) s) = P1 @ P2 @ t\<lparr>tab_isPinned := False\<rparr> # U"
proof -
  let ?x = "tab_id t"
  from s d have nP1: "?x \<notin> set (map tab_id P1)" and nP2: "?x \<notin> set (map tab_id P2)"
    and nU: "?x \<notin> set (map tab_id U)" by auto
  have "map (flipPin ?x) (tabs s) = P1 @ t\<lparr>tab_isPinned := False\<rparr> # P2 @ U"
    using s p map_flipPin_other [OF nP1] map_flipPin_other [OF nP2] map_flipPin_other [OF nU]
    by (simp add: flipPin_def)
  with p u show ?thesis by (simp add: tabs_togglePinTab)
qed


text \<open>Claim C4: Closing the active tab at index i of a registry with other tabs removes exactly that tab and, after the scheduled callback, activates the tab that preceded it (index max(0, i-1) of the remaining list, i.e. the next tab when the first tab is closed).\<close>

theorem closeTab_activates_previous:
  assumes d: "distinct (tab_ids s)" and s: "tabs s = l @ t # r"
    and a: "activeTab s = Some (tab_id t)" and ne: "l @ r \<noteq> []" and tm: "timers s = []"
    and nb: "nb = (if l = [] then hd r else last l)" and nz: "tab_id nb \<noteq> []"
  shows "drain (closeTab n (tab_id t) s) = s\<lparr>tabs := l @ r, activeTab := Some (tab_id nb)\<rparr>"
proof -
  let ?x = "tab_id t"
  from s d have nl: "?x \<notin> set (map tab_id l)" and nr: "?x \<notin> set (map tab_id r)" by auto
  from nl have "\<forall>u\<in>set l. tab_id u \<noteq> ?x" by (metis image_eqI set_map)
  then have fi: "findIndex (\<lambda>u. tab_id u = ?x) (tabs s) = Some (length l)"
    using s findIndex_first [of l "\<lambda>u. tab_id u = ?x" t r] by simp
  have fl: "filter (\<lambda>u. tab_id u \<noteq> ?x) (tabs s) = l @ r"
    using s filter_other_ids [OF nl] filter_other_ids [OF nr] by simp
  have pick: "nth_opt (l @ r) (length l - 1) = Some nb"
  proof (cases "l = []")
    case True
    with ne nb show ?thesis by (cases r) (auto simp: nth_opt_conv)
  next
    case False
    then have "length l - 1 < length l" by simp
    with False nb show ?thesis by (simp add: nth_opt_conv nth_append last_conv_nth less_imp_le_nat trans_less_add1)
  qed
  have "closeTab n ?x s = s\<lparr>tabs := l @ r, timers := [Some (tab_id nb)]\<rparr>"
    using fi fl ne a tm pick nz by (auto simp: closeTab_def Let_def js_or_def)
  then show ?thesis using tm by (cases s) (simp add: drain_def)
qed


text \<open>Claim C1: In every run where each UI command is followed by its pending callbacks, exactly one tab of the non-empty registry is the active tab.\<close>

theorem settled_exactly_one_active:
  assumes "settled s"
  shows "\<exists>!t. t \<in> set (tabs s) \<and> activeTab s = Some (tab_id t)"
proof -
  from assms have wf: "wf_app s" by (rule settled_wf)
  then obtain a where a: "activeTab s = Some a" and a_in: "a \<in> set (tab_ids s)"
    by (auto simp: wf_app_def active_ok_def split: option.splits)
  from wf have inj: "inj_on tab_id (set (tabs s))"
    by (simp add: wf_app_def registry_ok_def distinct_map)
  from a_in obtain t where t: "t \<in> set (tabs s)" "tab_id t = a" by auto
  show ?thesis
  proof (rule ex1I [of _ t])
    show "t \<in> set (tabs s) \<and> activeTab s = Some (tab_id t)" using t a by simp
  next
    fix u assume "u \<in> set (tabs s) \<and> activeTab s = Some (tab_id u)"
    with a t inj show "u = t" by (auto dest: inj_onD)
  qed
qed

lemma registry_ok_apply_cmd: "registry_ok s \<Longrightarrow> cmd_ok c s \<Longrightarrow> registry_ok (apply_cmd c s)"
  by (cases c) (auto simp: registry_ok_addTab registry_ok_closeTab registry_ok_togglePinTab,
    auto simp: registry_ok_def setActiveTab_def)

lemma registry_ok_fireTimer [simp]: "registry_ok (fireTimer s) = registry_ok s"
  by (simp add: registry_ok_def split: list.split)

lemma registry_ok_initialTab: "registry_ok (initialTab i app_init)"
  using wf_initialTab by (simp add: wf_app_def)


text \<open>Claim C6: Even when the scheduled activation callbacks interleave with later commands, tab ids stay distinct, the registry stays non-empty and pinned tabs stay in front of unpinned ones.\<close>

theorem interleaved_registry_ok: "interleaved s \<Longrightarrow> registry_ok s"
proof (induction rule: interleaved.induct)
  case (start i)
  show ?case by (rule registry_ok_initialTab)
next
  case (cmd s c)
  from cmd.IH cmd.hyps(2) show ?case by (rule registry_ok_apply_cmd)
next
  case (fire s)
  from fire.IH show ?case by (simp only: registry_ok_fireTimer)
qed



theorem settled_exactly_one_active_witness:
  "let s = drain (apply_cmd (CClose ''n'' ''a'')
             (drain (apply_cmd (CAdd ''b'' ''https://b.org'' '''') (initialTab ''a'' app_init))))
   in settled s \<and> (\<exists>!t. t \<in> set (tabs s) \<and> activeTab s = Some (tab_id t)) \<and> activeTab s = Some ''b''"
proof -
  let ?s1 = "drain (apply_cmd (CAdd ''b'' ''https://b.org'' '''') (initialTab ''a'' app_init))"
  let ?s2 = "drain (apply_cmd (CClose ''n'' ''a'') ?s1)"
  have s1: "settled ?s1"
    by (rule settled.step [OF settled.start]) (simp add: initialTab_def app_init_def)
  have s2: "settled ?s2" by (rule settled.step [OF s1]) simp
  have "activeTab ?s2 = Some ''b''"
    by (simp add: initialTab_def app_init_def addTab_def closeTab_def Let_def js_or_def)
  with s2 settled_exactly_one_active [OF s2] show ?thesis unfolding Let_def by blast
qed

theorem close_last_tab_witness:
  "tabs (initialTab ''a'' app_init) = [closed_default_tab ''a''] \<and> timers (initialTab ''a'' app_init) = [] \<and>
   drain (closeTab ''n'' ''a'' (initialTab ''a'' app_init))
     = (initialTab ''a'' app_init)\<lparr>tabs := [closed_default_tab ''n''], activeTab := Some ''n''\<rparr>"
proof -
  have t: "tabs (initialTab ''a'' app_init) = [closed_default_tab ''a'']"
    by (simp add: initialTab_def app_init_def closed_default_tab_def)
  have tm: "timers (initialTab ''a'' app_init) = []" by (simp add: initialTab_def app_init_def)
  from close_last_tab [OF t tm, of "''n''"] t tm show ?thesis
    by (simp add: closed_default_tab_def)
qed

theorem togglePin_pins_stably_witness:
  "let A = closed_default_tab ''A''; B = closed_default_tab ''B'';
       C = closed_default_tab ''C''; D = closed_default_tab ''D'';
       s = \<lparr>tabs = [A, B, C, D], activeTab = Some ''A'', timers = []\<rparr>
   in tabs (togglePinTab ''C'' s) = [C\<lparr>tab_isPinned := True\<rparr>, A, B, D]
      \<and> tab_ids (togglePinTab ''C'' s) = [''C'', ''A'', ''B'', ''D'']"
proof -
  let ?A = "closed_default_tab ''A''" and ?B = "closed_default_tab ''B''"
  let ?C = "closed_default_tab ''C''" and ?D = "closed_default_tab ''D''"
  let ?s = "\<lparr>tabs = [?A, ?B, ?C, ?D], activeTab = Some ''A'', timers = []\<rparr>"
  have "tabs (togglePinTab (tab_id ?C) ?s) = [] @ ?C\<lparr>tab_isPinned := True\<rparr> # [?A, ?B] @ [?D]"
    by (rule togglePin_pins_stably [of ?s "[]" "[?A, ?B]" ?C "[?D]"])
       (simp_all add: closed_default_tab_def)
  then show ?thesis by (simp add: Let_def closed_default_tab_def)
qed

theorem closeTab_activates_previous_witness:
  "let A = closed_default_tab ''A''; B = closed_default_tab ''B''; C = closed_default_tab ''C'';
       s = \<lparr>tabs = [A, B, C], activeTab = Some ''B'', timers = []\<rparr>
   in drain (closeTab ''n'' ''B'' s) = s\<lparr>tabs := [A, C], activeTab := Some ''A''\<rparr>"
proof -
  let ?A = "closed_default_tab ''A''" and ?B = "closed_default_tab ''B''"
  let ?C = "closed_default_tab ''C''"
  let ?s = "\<lparr>tabs = [?A, ?B, ?C], activeTab = Some ''B'', timers = []\<rparr>"
  have "drain (closeTab ''n'' (tab_id ?B) ?s) = ?s\<lparr>tabs := [?A] @ [?C], activeTab := Some (tab_id ?A)\<rparr>"
    by (rule closeTab_activates_previous [of ?s "[?A]" ?B "[?C]" ?A])
       (simp_all add: closed_default_tab_def)
  then show ?thesis by (simp add: Let_def closed_default_tab_def)
qed

theorem interleaved_registry_ok_witness:
  "let s = apply_cmd (CClose ''n'' ''b'') (apply_cmd (CAdd ''b'' ''https://b.org'' '''') (initialTab ''a'' app_init))
   in interleaved s \<and> registry_ok s"
proof -
  let ?s1 = "apply_cmd (CAdd ''b'' ''https://b.org'' '''') (initialTab ''a'' app_init)"
  have i1: "interleaved ?s1"
    by (rule interleaved.cmd [OF interleaved.start]) (simp add: initialTab_def app_init_def)
  have i2: "interleaved (apply_cmd (CClose ''n'' ''b'') ?s1)" by (rule interleaved.cmd [OF i1]) simp
  from i2 interleaved_registry_ok [OF i2] show ?thesis unfolding Let_def by blast
qed


end
