(* ===== verification/History.thy ===== *)
theory History
  imports Prelude
begin

text \<open>
  \<open>src/src/src/utils/HistoryManager.js\<close>: the browsing history is the JSON array stored
  under the localStorage key \<open>history\<close>, newest entry first.  Each operation reads it,
  computes the new array and writes it back; the model is the function from the stored
  array to the stored array.  The entry id (\<open>Date.now() + Math.random\<close>) and the
  timestamp (\<open>new Date().toISOString()\<close>) are arguments.
\<close>

record hentry =
  h_id :: string
  h_title :: string
  h_url :: url
  h_favicon :: "string option"
  h_timestamp :: timestamp

abbreviation INTERNAL_SCHEME :: string where
  "INTERNAL_SCHEME \<equiv> ''browser://''"

text \<open>\<open>addEntry\<close> (lines 7--28): internal and empty URLs are not recorded, a visit of the
  URL of the newest entry changes nothing, otherwise the new entry is prepended and the
  array cut to its first 1000 entries.\<close>

definition addEntry ::
  "string \<Rightarrow> url \<Rightarrow> string option \<Rightarrow> string \<Rightarrow> timestamp \<Rightarrow> hentry list \<Rightarrow> hentry list" where
  "addEntry title u fav hid ts h =
     (if u = [] \<or> startsWith u INTERNAL_SCHEME then h
      else if h \<noteq> [] \<and> h_url (hd h) = u then h
      else take 1000 (\<lparr>h_id = hid, h_title = str_or title u, h_url = u, h_favicon = fav,
                       h_timestamp = ts\<rparr> # h))"

definition deleteEntry :: "string \<Rightarrow> hentry list \<Rightarrow> hentry list" where
  "deleteEntry i h = filter (\<lambda>e. h_id e \<noteq> i) h"

definition clearHistory :: "hentry list \<Rightarrow> hentry list" where
  "clearHistory h = []"

text \<open>A sequence of visits, each \<open>(title, url, favicon, id, timestamp)\<close>, in call order.\<close>

type_synonym visit = "string \<times> url \<times> string option \<times> string \<times> timestamp"

fun visit_url :: "visit \<Rightarrow> url" where
  "visit_url (t, u, f, i, ts) = u"

fun addEntries :: "visit list \<Rightarrow> hentry list \<Rightarrow> hentry list" where
  "addEntries [] h = h"
| "addEntries ((t, u, f, i, ts) # vs) h = addEntries vs (addEntry t u f i ts h)"

definition external_url :: "url \<Rightarrow> bool" where
  "external_url u \<longleftrightarrow> u \<noteq> [] \<and> \<not> startsWith u INTERNAL_SCHEME"

text \<open>The stored history invariant: at most 1000 entries, none of them internal.\<close>

definition history_ok :: "hentry list \<Rightarrow> bool" where
  "history_ok h \<longleftrightarrow> length h \<le> 1000 \<and> list_all (\<lambda>e. external_url (h_url e)) h"

subsection \<open>Properties of the history store\<close>

lemma take_append_take: "take n (xs @ take n ys) = take n (xs @ ys)"
  by (simp add: take_append min_def)

lemma addEntry_internal: "startsWith u INTERNAL_SCHEME \<Longrightarrow> addEntry t u f i ts h = h"
  by (simp add: addEntry_def)

lemma h_url_hd_addEntry:
  "external_url u \<Longrightarrow> addEntry t u f i ts h \<noteq> [] \<and> h_url (hd (addEntry t u f i ts h)) = u"
  by (auto simp: addEntry_def external_url_def)

lemma addEntry_history_ok: "history_ok h \<Longrightarrow> history_ok (addEntry t u f i ts h)"
  by (auto simp: history_ok_def addEntry_def external_url_def list_all_iff dest: in_set_takeD)

text \<open>Claim C8: Recording the same URL twice in a row leaves the history as after the first visit: deduplication is against the newest entry only and the repeat is a no-op, not an update.\<close>

theorem addEntry_same_url_twice:
  "addEntry t2 u f2 i2 ts2 (addEntry t1 u f1 i1 ts1 h) = addEntry t1 u f1 i1 ts1 h"
proof (cases "external_url u")
  case True
  then show ?thesis using h_url_hd_addEntry [OF True, of t1 f1 i1 ts1 h]
    by (simp add: addEntry_def [of t2] external_url_def)
next
  case False
  then show ?thesis by (auto simp: addEntry_def external_url_def)
qed

text \<open>Claim C7: After a sequence of visits to external URLs with no URL repeated back to back, the stored history lists the visited URLs newest first, followed by the earlier history, cut to the 1000 most recent entries.\<close>

theorem addEntries_keeps_most_recent:
  assumes "list_all (\<lambda>v. external_url (visit_url v)) vs"
    and "successively (\<lambda>a b. visit_url a \<noteq> visit_url b) vs"
    and "h = [] \<or> vs = [] \<or> h_url (hd h) \<noteq> visit_url (hd vs)"
    and "length h \<le> 1000"
  shows "map h_url (addEntries vs h) = take 1000 (rev (map visit_url vs) @ map h_url h)"
  using assms
proof (induction vs arbitrary: h)
  case Nil
  then show ?case by simp
next
  case (Cons v vs)
  obtain t u f i ts where v: "v = (t, u, f, i, ts)" by (cases v) auto
  let ?h' = "addEntry t u f i ts h"
  from Cons.prems v have ext: "external_url u" by simp
  have h': "map h_url ?h' = take 1000 (u # map h_url h)"
    using Cons.prems(3) ext v by (auto simp: addEntry_def external_url_def take_map)
  have "map h_url (addEntries vs ?h') = take 1000 (rev (map visit_url vs) @ map h_url ?h')"
  proof (rule Cons.IH)
    show "list_all (\<lambda>v. external_url (visit_url v)) vs" using Cons.prems(1) by simp
    show "successively (\<lambda>a b. visit_url a \<noteq> visit_url b) vs"
      using Cons.prems(2) by (cases vs) auto
    show "?h' = [] \<or> vs = [] \<or> h_url (hd ?h') \<noteq> visit_url (hd vs)"
      using Cons.prems(2) h_url_hd_addEntry [OF ext, of t f i ts h] v by (cases vs) auto
    show "length ?h' \<le> 1000" using Cons.prems(4) by (simp add: addEntry_def)
  qed
  also have "\<dots> = take 1000 (rev (map visit_url vs) @ u # map h_url h)"
    unfolding h' take_append_take ..
  finally show ?case using v by simp
qed

theorem addEntries_keeps_most_recent_witness:
  "let vs = [(''A'', ''https://a.org'', None, ''1'', 1), (''B'', ''https://b.org'', None, ''2'', 2),
             (''C'', ''https://a.org'', None, ''3'', 3)] :: visit list
   in map h_url (addEntries vs []) = [''https://a.org'', ''https://b.org'', ''https://a.org'']"
proof -
  let ?vs = "[(''A'', ''https://a.org'', None, ''1'', 1), (''B'', ''https://b.org'', None, ''2'', 2),
             (''C'', ''https://a.org'', None, ''3'', 3)] :: visit list"
  have "map h_url (addEntries ?vs []) = take 1000 (rev (map visit_url ?vs) @ map h_url ([] :: hentry list))"
    by (rule addEntries_keeps_most_recent) (simp_all add: external_url_def)
  then show ?thesis by (simp add: Let_def)
qed

end
