(* ===== verification/Bookmarks.thy ===== *)
theory Bookmarks
  imports Prelude
begin

text \<open>
  \<open>src/src/src/utils/BookmarksManager.js\<close>: the bookmarks are the JSON array stored under
  the localStorage key \<open>bookmarks\<close>, in insertion order, unique by URL.  The id
  (\<open>Date.now()\<close>) is an argument.  \<open>App.jsx\<close>'s star button toggles the bookmark of
  the active tab (\<open>handleToggleBookmark\<close>).
\<close>

record bookmark =
  b_id :: nat
  b_title :: string
  b_url :: url
  b_favicon :: "string option"

definition isBookmarked :: "url \<Rightarrow> bookmark list \<Rightarrow> bool" where
  "isBookmarked u bs = list_ex (\<lambda>b. b_url b = u) bs"

definition addBookmark :: "string \<Rightarrow> url \<Rightarrow> string option \<Rightarrow> nat \<Rightarrow> bookmark list \<Rightarrow> bookmark list" where
  "addBookmark title u fav bid bs =
     (if list_ex (\<lambda>b. b_url b = u) bs then bs
      else bs @ [\<lparr>b_id = bid, b_title = title, b_url = u, b_favicon = fav\<rparr>])"

definition removeBookmark :: "url \<Rightarrow> bookmark list \<Rightarrow> bookmark list" where
  "removeBookmark u bs = filter (\<lambda>b. b_url b \<noteq> u) bs"

text \<open>\<open>handleToggleBookmark\<close> (App.jsx, lines 235--242) for the active tab's title, URL
  and favicon; \<open>isBookmarked\<close> is read from the store.\<close>

definition toggleBookmark :: "string \<Rightarrow> url \<Rightarrow> string option \<Rightarrow> nat \<Rightarrow> bookmark list \<Rightarrow> bookmark list" where
  "toggleBookmark title u fav bid bs =
     (if isBookmarked u bs then removeBookmark u bs else addBookmark title u fav bid bs)"

subsection \<open>Properties of the bookmark store\<close>

lemma isBookmarked_addBookmark [simp]: "isBookmarked u (addBookmark t u f i bs)"
  by (auto simp: isBookmarked_def addBookmark_def list_ex_iff)

lemma isBookmarked_removeBookmark [simp]: "\<not> isBookmarked u (removeBookmark u bs)"
  by (simp add: isBookmarked_def removeBookmark_def list_ex_iff)

lemma distinct_urls_addBookmark:
  "distinct (map b_url bs) \<Longrightarrow> distinct (map b_url (addBookmark t u f i bs))"
  by (auto simp: addBookmark_def list_ex_iff)

lemma distinct_urls_removeBookmark:
  "distinct (map b_url bs) \<Longrightarrow> distinct (map b_url (removeBookmark u bs))"
  by (simp add: removeBookmark_def distinct_map_filter)

text \<open>Claim C9: Adding a bookmark for a URL that is already bookmarked leaves the bookmark list unchanged.\<close>

theorem addBookmark_twice:
  "addBookmark t2 u f2 i2 (addBookmark t1 u f1 i1 bs) = addBookmark t1 u f1 i1 bs"
  using isBookmarked_addBookmark [of u t1 f1 i1 bs]
  by (simp add: addBookmark_def [of t2] isBookmarked_def)

text \<open>Claim C10: Removing a URL that is not bookmarked leaves the bookmark list unchanged.\<close>

theorem removeBookmark_absent: "\<not> isBookmarked u bs \<Longrightarrow> removeBookmark u bs = bs"
  by (auto simp: isBookmarked_def removeBookmark_def list_ex_iff filter_id_conv)

text \<open>Claim C11: Toggling the star of a page that is not bookmarked adds it; toggling again restores the original bookmark list.\<close>

theorem toggleBookmark_roundtrip:
  "\<not> isBookmarked u bs \<Longrightarrow> toggleBookmark t u f i (toggleBookmark t u f i bs) = bs"
  by (simp add: toggleBookmark_def addBookmark_def removeBookmark_def isBookmarked_def list_ex_iff
      filter_id_conv)

text \<open>Claim C12: Toggling a bookmark keeps the bookmark URLs pairwise distinct.\<close>

theorem bookmarks_unique_by_url:
  "distinct (map b_url bs) \<Longrightarrow> distinct (map b_url (toggleBookmark t u f i bs))"
  by (simp add: toggleBookmark_def distinct_urls_addBookmark distinct_urls_removeBookmark)

theorem removeBookmark_absent_witness:
  "let bs = [\<lparr>b_id = 1, b_title = ''A'', b_url = ''https://a.org'', b_favicon = None\<rparr>]
   in \<not> isBookmarked ''https://b.org'' bs \<and> removeBookmark ''https://b.org'' bs = bs"
proof -
  let ?bs = "[\<lparr>b_id = 1, b_title = ''A'', b_url = ''https://a.org'', b_favicon = None\<rparr>]"
  have n: "\<not> isBookmarked ''https://b.org'' ?bs" by (simp add: isBookmarked_def)
  from n removeBookmark_absent [OF n] show ?thesis by (simp add: Let_def)
qed

theorem toggleBookmark_roundtrip_witness:
  "let bs = [\<lparr>b_id = 1, b_title = ''A'', b_url = ''https://a.org'', b_favicon = None\<rparr>]
   in \<not> isBookmarked ''https://b.org'' bs \<and>
      toggleBookmark ''B'' ''https://b.org'' None 2 bs \<noteq> bs \<and>
      toggleBookmark ''B'' ''https://b.org'' None 2 (toggleBookmark ''B'' ''https://b.org'' None 2 bs) = bs"
proof -
  let ?bs = "[\<lparr>b_id = 1, b_title = ''A'', b_url = ''https://a.org'', b_favicon = None\<rparr>]"
  have n: "\<not> isBookmarked ''https://b.org'' ?bs" by (simp add: isBookmarked_def)
  have "toggleBookmark ''B'' ''https://b.org'' None 2 ?bs \<noteq> ?bs"
    by (simp add: toggleBookmark_def isBookmarked_def addBookmark_def)
  with n toggleBookmark_roundtrip [OF n, of "''B''" None 2] show ?thesis by (simp add: Let_def)
qed

theorem bookmarks_unique_by_url_witness:
  "let bs = [\<lparr>b_id = 1, b_title = ''A'', b_url = ''https://a.org'', b_favicon = None\<rparr>]
   in distinct (map b_url bs) \<and> distinct (map b_url (toggleBookmark ''B'' ''https://b.org'' None 2 bs))"
proof -
  let ?bs = "[\<lparr>b_id = 1, b_title = ''A'', b_url = ''https://a.org'', b_favicon = None\<rparr>]"
  have d: "distinct (map b_url ?bs)" by simp
  from d bookmarks_unique_by_url [OF d, of "''B''" "''https://b.org''" None 2] show ?thesis
    by (simp add: Let_def)
qed

end
