(* ===== verification/Downloads.thy ===== *)
theory Downloads
  imports Prelude
begin

text \<open>
  The download pipeline.  Three pieces of code touch downloads:
  \<^item> \<open>src/main.js\<close> (\<open>will-download\<close>, lines 231--286): for each Electron download item it
    sends \<open>download-update\<close> messages, each an array holding one record, on start, on
    \<open>updated\<close> events (interrupted, or progressing and not paused) and once on \<open>done\<close>;
  \<^item> \<open>App.jsx\<close> (lines 202--207) re-dispatches each message as the window event
    \<open>downloads-updated\<close>, and \<open>Downloads.jsx\<close> (lines 8--17), while the Downloads page is
    mounted, replaces its list by the message's array;
  \<^item> \<open>src/src/src/utils/DownloadsManager.js\<close> keeps a capped, persisted collection
    (\<open>addDownload\<close>, \<open>updateDownload\<close>, \<open>clearDownloads\<close>); the page reads it on mount.
  A JavaScript download record may lack fields (\<open>path\<close>, \<open>startTime\<close>, \<open>url\<close>,
  \<open>endTime\<close>); those are \<open>option\<close> fields here.  Ids and clock readings are arguments.
\<close>

datatype dl_state = Progressing | Completed | Cancelled | Interrupted

record download =
  d_id :: string
  d_filename :: string
  d_path :: "string option"
  d_url :: "url option"
  d_totalBytes :: nat
  d_receivedBytes :: nat
  d_state :: dl_state
  d_startTime :: "timestamp option"
  d_endTime :: "timestamp option"

subsection \<open>DownloadsManager\<close>

definition is_terminal :: "dl_state \<Rightarrow> bool" where
  "is_terminal st \<longleftrightarrow> st = Completed \<or> st = Cancelled \<or> st = Interrupted"

definition addDownload ::
  "string \<Rightarrow> string \<Rightarrow> string \<Rightarrow> url \<Rightarrow> nat \<Rightarrow> timestamp \<Rightarrow> download list \<Rightarrow> download list" where
  "addDownload i fn p u tot now ds =
     take 100 (\<lparr>d_id = i, d_filename = fn, d_path = Some p, d_url = Some u, d_totalBytes = tot,
                d_receivedBytes = 0, d_state = Progressing, d_startTime = Some now, d_endTime = None\<rparr> # ds)"

definition updateDownload ::
  "string \<Rightarrow> nat \<Rightarrow> dl_state \<Rightarrow> timestamp \<Rightarrow> download list \<Rightarrow> download list" where
  "updateDownload i recv st now ds =
     map (\<lambda>d. if d_id d = i
              then d\<lparr>d_receivedBytes := recv, d_state := st,
                     d_endTime := (if is_terminal st then Some now else None)\<rparr>
              else d) ds"

definition clearDownloads :: "download list \<Rightarrow> download list" where
  "clearDownloads ds = []"

subsection \<open>The main process: \<open>will-download\<close>\<close>

text \<open>What the handler reads of an Electron \<open>DownloadItem\<close>, at the time of each event.\<close>

record dl_item =
  it_filename :: string
  it_savePath :: string
  it_totalBytes :: nat
  it_receivedBytes :: nat
  it_paused :: bool

text \<open>\<open>path.join(dir, name)\<close> for a directory and a plain file name.\<close>

definition path_join :: "string \<Rightarrow> string \<Rightarrow> string" where
  "path_join dir name = (if dir \<noteq> [] \<and> last dir = CHR ''/'' then dir @ name else dir @ ''/'' @ name)"

text \<open>Lines 233--249: set the save path from the configured download folder, then send
  the start message.\<close>

definition willDownload ::
  "string \<Rightarrow> string \<Rightarrow> timestamp \<Rightarrow> dl_item \<Rightarrow> dl_item \<times> download list" where
  "willDownload downloadPath did now it =
     (let it' = (if downloadPath \<noteq> [] then it\<lparr>it_savePath := path_join downloadPath (it_filename it)\<rparr> else it)
      in (it', [\<lparr>d_id = did, d_filename = it_filename it', d_path = Some (it_savePath it'), d_url = None,
                 d_totalBytes = it_totalBytes it', d_receivedBytes = it_receivedBytes it',
                 d_state = Progressing, d_startTime = Some now, d_endTime = None\<rparr>]))"

text \<open>The message of an \<open>updated\<close> event: no \<open>path\<close> and no \<open>startTime\<close> field.\<close>

definition update_msg :: "string \<Rightarrow> dl_item \<Rightarrow> dl_state \<Rightarrow> download" where
  "update_msg did it st = \<lparr>d_id = did, d_filename = it_filename it, d_path = None, d_url = None,
      d_totalBytes = it_totalBytes it, d_receivedBytes = it_receivedBytes it, d_state = st,
      d_startTime = None, d_endTime = None\<rparr>"

datatype item_event = Updated dl_state | Done dl_state

text \<open>
  The item's listeners (lines 251--285).  \<open>done\<close> is bound with \<open>once\<close>: the flag
  records whether it has fired.  \<open>None\<close> is "no message sent".
\<close>

fun itemEvent :: "string \<Rightarrow> bool \<Rightarrow> dl_item \<Rightarrow> item_event \<Rightarrow> bool \<times> download list option" where
  "itemEvent did done it (Updated st) =
     (done, if st = Interrupted then Some [update_msg did it Interrupted]
            else if st = Progressing then (if it_paused it then None else Some [update_msg did it Progressing])
            else None)"
| "itemEvent did done it (Done st) =
     (if done then (done, None)
      else (True, Some [(update_msg did it st)\<lparr>d_path := Some (it_savePath it)\<rparr>]))"

text \<open>The messages sent for one download: its start and a sequence of item events, each
  with the item as the handler reads it then.\<close>

fun item_msgs :: "string \<Rightarrow> bool \<Rightarrow> (dl_item \<times> item_event) list \<Rightarrow> download list list" where
  "item_msgs did done [] = []"
| "item_msgs did done ((it, e) # es) =
     (case itemEvent did done it e of
        (done', None) \<Rightarrow> item_msgs did done' es
      | (done', Some m) \<Rightarrow> m # item_msgs did done' es)"

subsection \<open>The Downloads page\<close>

record dl_view =
  dv_mounted :: bool
  dv_list :: "download list"

text \<open>Mounting the page reads the persisted collection (\<open>getDownloads\<close>); each
  \<open>downloads-updated\<close> event replaces the list while the page is mounted.\<close>

definition mountDownloads :: "download list \<Rightarrow> dl_view \<Rightarrow> dl_view" where
  "mountDownloads stored v = v\<lparr>dv_mounted := True, dv_list := stored\<rparr>"


definition onDownloadUpdate :: "download list \<Rightarrow> dl_view \<Rightarrow> dl_view" where
  "onDownloadUpdate detail v = (if dv_mounted v then v\<lparr>dv_list := detail\<rparr> else v)"

fun deliver :: "download list list \<Rightarrow> dl_view \<Rightarrow> dl_view" where
  "deliver [] v = v"
| "deliver (m # ms) v = deliver ms (onDownloadUpdate m v)"

subsection \<open>Properties of the download pipeline\<close>

lemma willDownload_singleton: "length (snd (willDownload p did now it)) = 1"
  by (simp add: willDownload_def Let_def)

lemma item_msgs_singletons: "\<forall>m\<in>set (item_msgs did dn es). length m = 1"
proof (induction did dn es rule: item_msgs.induct)
  case (1 did dn)
  then show ?case by simp
next
  case (2 did dn it e es)
  then show ?case
    by (cases e) (auto split: prod.splits option.splits if_splits)
qed

lemma dv_mounted_deliver [simp]: "dv_mounted (deliver ms v) = dv_mounted v"
  by (induction ms arbitrary: v) (simp_all add: onDownloadUpdate_def)

lemma deliver_last: "dv_mounted v \<Longrightarrow> ms \<noteq> [] \<Longrightarrow> dv_list (deliver ms v) = last ms"
proof (induction ms arbitrary: v)
  case Nil
  then show ?case by simp
next
  case (Cons m ms)
  show ?case
  proof (cases "ms = []")
    case True
    with Cons.prems show ?thesis by (simp add: onDownloadUpdate_def)
  next
    case False
    have "dv_mounted (onDownloadUpdate m v)" using Cons.prems by (simp add: onDownloadUpdate_def)
    from Cons.IH [OF this False] False show ?thesis by simp
  qed
qed

lemma item_msgs_Updated:
  "item_msgs did dn ((it, Updated st) # es) =
     (if st = Interrupted then [[update_msg did it Interrupted]]
      else if st = Progressing \<and> \<not> it_paused it then [[update_msg did it Progressing]] else [])
     @ item_msgs did dn es"
  by simp

lemma item_msgs_Done:
  "item_msgs did dn ((it, Done st) # es) =
     (if dn then item_msgs did dn es
      else [(update_msg did it st)\<lparr>d_path := Some (it_savePath it)\<rparr>] # item_msgs did True es)"
  by simp

lemma item_msgs_done_once:
  "length (filter (\<lambda>m. d_path (hd m) \<noteq> None) (item_msgs did dn es)) \<le> (if dn then 0 else 1)"
proof (induction es arbitrary: dn)
  case Nil
  then show ?case by simp
next
  case (Cons p es)
  obtain it e where p: "p = (it, e)" by (cases p)
  show ?case
  proof (cases e)
    case (Updated st)
    with p Cons.IH [of dn] show ?thesis
      by (simp only: item_msgs_Updated) (simp add: update_msg_def)
  next
    case (Done st)
    with p Cons.IH [of dn] Cons.IH [of True] show ?thesis
      by (simp only: item_msgs_Done) simp
  qed
qed

lemma length_addDownload: "length (addDownload i fn p u tot now ds) = min 100 (Suc (length ds))"
  by (simp add: addDownload_def)

lemma updateDownload_twice:
  "updateDownload i r2 st2 t2 (updateDownload i r1 st1 t1 ds) = updateDownload i r2 st2 t2 ds"
  by (simp add: updateDownload_def comp_def)

theorem updateDownload_other_ids: "d_id d \<noteq> i \<Longrightarrow> d \<in> set ds \<Longrightarrow> d \<in> set (updateDownload i r st t ds)"
  by (force simp: updateDownload_def)

text \<open>Claim C13: While the Downloads page is open, each download-update message replaces its whole list, and every message main.js sends holds one record: after any non-empty sequence of messages the page lists exactly the record of the last message, so concurrent downloads are not shown together.\<close>

theorem downloads_page_shows_only_last:
  assumes "dv_mounted v" and "ms \<noteq> []" and "\<forall>m\<in>set ms. length m = 1"
  shows "dv_list (deliver ms v) = last ms \<and> length (dv_list (deliver ms v)) = 1"
  using assms deliver_last [OF assms(1,2)] by simp

text \<open>Claim C14: For one download item, main.js sends at most one message carrying a path (the done message): the done listener is bound with once.\<close>

theorem done_reported_once:
  "length (filter (\<lambda>m. d_path (hd m) \<noteq> None) (item_msgs did False es)) \<le> 1"
  using item_msgs_done_once [of did False es] by simp

text \<open>Claim C15: DownloadsManager.updateDownload does not treat terminal states as absorbing: a progressing update after a completed one sets the record back to progressing and clears its end time.\<close>

theorem updateDownload_terminal_not_absorbing:
  assumes "d \<in> set ds" and "d_id d = i"
  shows "\<exists>d'\<in>set (updateDownload i r Progressing t2 (updateDownload i r' st t1 ds)).
           d_id d' = i \<and> d_state d' = Progressing \<and> d_endTime d' = None"
proof -
  let ?d' = "d\<lparr>d_receivedBytes := r, d_state := Progressing, d_endTime := None\<rparr>"
  have "?d' \<in> set (updateDownload i r Progressing t2 ds)"
    unfolding updateDownload_def set_map
    by (rule rev_image_eqI [OF assms(1)]) (simp add: assms(2) is_terminal_def)
  moreover have "d_id ?d' = i \<and> d_state ?d' = Progressing \<and> d_endTime ?d' = None"
    using assms(2) by simp
  ultimately show ?thesis unfolding updateDownload_twice by blast
qed

text \<open>Claim C16: addDownload puts the new record first and keeps at most 100 records, dropping the oldest.\<close>

theorem addDownload_bounded_newest_first:
  "length (addDownload i fn p u tot now ds) \<le> 100 \<and>
   d_id (hd (addDownload i fn p u tot now ds)) = i \<and>
   tl (addDownload i fn p u tot now ds) = take 99 ds"
  by (simp add: addDownload_def)


theorem downloads_page_shows_only_last_witness:
  "let a = \<lparr>it_filename = ''a.zip'', it_savePath = '''', it_totalBytes = 10, it_receivedBytes = 0, it_paused = False\<rparr>;
       b = \<lparr>it_filename = ''b.zip'', it_savePath = '''', it_totalBytes = 20, it_receivedBytes = 0, it_paused = False\<rparr>;
       ms = [snd (willDownload ''/dl'' ''d1'' 1 a), snd (willDownload ''/dl'' ''d2'' 2 b)];
       v = mountDownloads [] \<lparr>dv_mounted = False, dv_list = []\<rparr>
   in map d_id (dv_list (deliver ms v)) = [''d2''] \<and> map d_path (dv_list (deliver ms v)) = [Some ''/dl/b.zip'']"
proof -
  let ?a = "\<lparr>it_filename = ''a.zip'', it_savePath = '''', it_totalBytes = 10, it_receivedBytes = 0, it_paused = False\<rparr>"
  let ?b = "\<lparr>it_filename = ''b.zip'', it_savePath = '''', it_totalBytes = 20, it_receivedBytes = 0, it_paused = False\<rparr>"
  let ?ms = "[snd (willDownload ''/dl'' ''d1'' 1 ?a), snd (willDownload ''/dl'' ''d2'' 2 ?b)]"
  let ?v = "mountDownloads [] \<lparr>dv_mounted = False, dv_list = []\<rparr>"
  have "dv_list (deliver ?ms ?v) = last ?ms \<and> length (dv_list (deliver ?ms ?v)) = 1"
    by (rule downloads_page_shows_only_last) (simp_all add: mountDownloads_def willDownload_singleton)
  then show ?thesis by (simp add: Let_def willDownload_def path_join_def)
qed


theorem updateDownload_terminal_not_absorbing_witness:
  "let ds = addDownload ''d1'' ''a.zip'' ''/dl/a.zip'' ''https://x.org/a.zip'' 10 1 []
   in \<exists>d'\<in>set (updateDownload ''d1'' 5 Progressing 3 (updateDownload ''d1'' 10 Completed 2 ds)).
        d_id d' = ''d1'' \<and> d_state d' = Progressing \<and> d_endTime d' = None"
proof -
  let ?ds = "addDownload ''d1'' ''a.zip'' ''/dl/a.zip'' ''https://x.org/a.zip'' 10 1 []"
  have "hd ?ds \<in> set ?ds" and "d_id (hd ?ds) = ''d1''" by (simp_all add: addDownload_def)
  from updateDownload_terminal_not_absorbing [OF this, of 5 3 10 Completed 2] show ?thesis
    unfolding Let_def .
qed

end
