(* ===== verification/Urls.thy ===== *)
theory Urls
  imports Prelude "HOL-Library.Char_ord"
begin

text \<open>
  Address-bar input resolution: \<open>TopBar.jsx\<close> (\<open>validateUrl\<close>, \<open>handleKeyDown\<close>,
  lines 357--398) and \<open>NewTab.jsx\<close> (\<open>handleSearch\<close>, lines 7--22), with the library
  functions they call.  Strings are byte strings: a JavaScript string is its UTF-8
  encoding, so \<open>encodeURIComponent\<close>, which percent-encodes the UTF-8 bytes of every
  character outside its unreserved set, is a byte-wise function here.  \<open>trim\<close> removes
  the ASCII white space and line terminators (the non-ASCII white space of JavaScript is
  not modelled).  The three regular expressions of \<open>isDomainLike\<close> are written as the
  string predicates they denote.  \<open>new URL(value)\<close> succeeding is modelled by
  \<open>url_parses\<close>, after the WHATWG URL parser: a scheme (an ASCII letter, then letters,
  digits, \<open>+ - .\<close>) before the first colon, and for the special schemes http, https, ws,
  wss and ftp a non-empty host without forbidden host characters and a numeric port.
\<close>

subsection \<open>Characters\<close>

definition is_alpha :: "char \<Rightarrow> bool" where
  "is_alpha c \<longleftrightarrow> (CHR ''a'' \<le> c \<and> c \<le> CHR ''z'') \<or> (CHR ''A'' \<le> c \<and> c \<le> CHR ''Z'')"

definition is_digit :: "char \<Rightarrow> bool" where
  "is_digit c \<longleftrightarrow> CHR ''0'' \<le> c \<and> c \<le> CHR ''9''"

definition is_space :: "char \<Rightarrow> bool" where
  "is_space c \<longleftrightarrow> c \<in> {CHR '' '', CHR 0x09, CHR 0x0A, CHR 0x0B, CHR 0x0C, CHR 0x0D}"

definition js_trim :: "string \<Rightarrow> string" where
  "js_trim s = rev (dropWhile is_space (rev (dropWhile is_space s)))"

text \<open>\<open>toLowerCase\<close> on an ASCII character.\<close>

definition lower :: "char \<Rightarrow> char" where
  "lower c = (case map_of (zip ''ABCDEFGHIJKLMNOPQRSTUVWXYZ'' ''abcdefghijklmnopqrstuvwxyz'') c of
                Some d \<Rightarrow> d | None \<Rightarrow> c)"

subsection \<open>\<open>new URL(value)\<close> succeeds\<close>

definition scheme_char :: "char \<Rightarrow> bool" where
  "scheme_char c \<longleftrightarrow> is_alpha c \<or> is_digit c \<or> c \<in> {CHR ''+'', CHR ''-'', CHR ''.''}"

definition special_scheme :: "string \<Rightarrow> bool" where
  "special_scheme sc \<longleftrightarrow> sc \<in> {''http'', ''https'', ''ws'', ''wss'', ''ftp''}"

definition forbidden_host_char :: "char \<Rightarrow> bool" where
  "forbidden_host_char c \<longleftrightarrow> c \<le> CHR '' '' \<or> c \<in> set ''#%/:<>?@[]^|'' \<or> c = CHR 0x5C"

text \<open>The authority of a special URL: slashes skipped, up to the path, query or fragment;
  user info before the last \<open>@\<close> dropped; host and port split at the first colon.\<close>

definition special_authority_ok :: "string \<Rightarrow> bool" where
  "special_authority_ok rest =
     (let a = takeWhile (\<lambda>c. c \<notin> set ''/?#'' \<and> c \<noteq> CHR 0x5C) (dropWhile (\<lambda>c. c = CHR ''/'' \<or> c = CHR 0x5C) rest);
          hp = rev (takeWhile (\<lambda>c. c \<noteq> CHR ''@'') (rev a));
          host = takeWhile (\<lambda>c. c \<noteq> CHR '':'') hp;
          port = drop (Suc (length host)) hp
      in host \<noteq> [] \<and> list_all (\<lambda>c. \<not> forbidden_host_char c) host \<and> list_all is_digit port)"

definition url_parses :: "string \<Rightarrow> bool" where
  "url_parses s =
     (let t = js_trim s; sc = takeWhile (\<lambda>c. c \<noteq> CHR '':'') t; rest = drop (Suc (length sc)) t
      in length sc < length t \<and> sc \<noteq> [] \<and> is_alpha (hd sc) \<and> list_all scheme_char sc \<and>
         (special_scheme (map lower sc) \<longrightarrow> special_authority_ok rest))"

text \<open>The parts of a parsed URL that \<open>normalize\<close> reads, \<open>hostname\<close> and \<open>pathname\<close>.
  A special URL skips any run of slashes and backslashes before its authority and has the
  path \<open>/\<close> when it has none; its host is lower-cased.  A non-special URL has an
  authority only after \<open>//\<close>.  Dot segments and percent-encoding of the path are not
  modelled.\<close>

definition url_split :: "string \<Rightarrow> bool \<times> string \<times> string" where
  "url_split s =
     (let t = js_trim s; sc = takeWhile (\<lambda>c. c \<noteq> CHR '':'') t; rest = drop (Suc (length sc)) t
      in if special_scheme (map lower sc) then
           (let r = dropWhile (\<lambda>c. c = CHR ''/'' \<or> c = CHR 0x5C) rest;
                a = takeWhile (\<lambda>c. c \<notin> set ''/?#'' \<and> c \<noteq> CHR 0x5C) r
            in (True, a, drop (length a) r))
         else if startsWith rest ''//'' then
           (let a = takeWhile (\<lambda>c. c \<notin> set ''/?#'') (drop 2 rest) in (False, a, drop (2 + length a) rest))
         else (False, [], rest))"

definition url_hostname :: "string \<Rightarrow> string" where
  "url_hostname s =
     (case url_split s of (sp, a, r) \<Rightarrow>
        let h = takeWhile (\<lambda>c. c \<noteq> CHR '':'') (rev (takeWhile (\<lambda>c. c \<noteq> CHR ''@'') (rev a)))
        in if sp then map lower h else h)"

definition url_pathname :: "string \<Rightarrow> string" where
  "url_pathname s =
     (case url_split s of (sp, a, r) \<Rightarrow>
        let p = takeWhile (\<lambda>c. c \<notin> set ''?#'') r
        in if sp then (if p = [] then ''/'' else map (\<lambda>c. if c = CHR 0x5C then CHR ''/'' else c) p) else p)"

definition validateUrl :: "string \<Rightarrow> bool" where
  "validateUrl value = url_parses value"

subsection \<open>The regular expressions of \<open>isDomainLike\<close>\<close>

fun split_dots :: "string \<Rightarrow> string list" where
  "split_dots [] = [[]]"
| "split_dots (c # s) =
     (if c = CHR ''.'' then [] # split_dots s
      else (case split_dots s of l # ls \<Rightarrow> (c # l) # ls | [] \<Rightarrow> [[c]]))"

text \<open>\<open>(\/.*)?$\<close>: empty, or a slash and then no line terminator; \<open>(:\d+)?\<close>.\<close>

definition path_tail_ok :: "string \<Rightarrow> bool" where
  "path_tail_ok p \<longleftrightarrow> p = [] \<or> (hd p = CHR ''/'' \<and> CHR 0x0A \<notin> set p \<and> CHR 0x0D \<notin> set p)"

definition port_ok :: "string \<Rightarrow> bool" where
  "port_ok q \<longleftrightarrow> q = [] \<or> (hd q = CHR '':'' \<and> tl q \<noteq> [] \<and> list_all is_digit (tl q))"

text \<open>The input split into host, optional port and optional path, as the three patterns
  split it: the host part has no colon and no slash.\<close>

definition host_port_path :: "string \<Rightarrow> string \<times> string \<times> string" where
  "host_port_path s =
     (let hp = takeWhile (\<lambda>c. c \<noteq> CHR ''/'') s; p = dropWhile (\<lambda>c. c \<noteq> CHR ''/'') s;
          h = takeWhile (\<lambda>c. c \<noteq> CHR '':'') hp
      in (h, drop (length h) hp, p))"

definition domain_re :: "string \<Rightarrow> bool" where
  "domain_re s =
     (case host_port_path s of (h, q, p) \<Rightarrow>
        let ls = split_dots h in
        2 \<le> length ls \<and> list_all (\<lambda>l. l \<noteq> [] \<and> list_all (\<lambda>c. is_alpha c \<or> is_digit c \<or> c = CHR ''-'') l) (butlast ls)
        \<and> 2 \<le> length (last ls) \<and> list_all is_alpha (last ls) \<and> port_ok q \<and> path_tail_ok p)"

definition localhost_re :: "string \<Rightarrow> bool" where
  "localhost_re s = (case host_port_path s of (h, q, p) \<Rightarrow> h = ''localhost'' \<and> port_ok q \<and> path_tail_ok p)"

definition ip_re :: "string \<Rightarrow> bool" where
  "ip_re s =
     (case host_port_path s of (h, q, p) \<Rightarrow>
        let ls = split_dots h in
        length ls = 4 \<and> list_all (\<lambda>l. 1 \<le> length l \<and> length l \<le> 3 \<and> list_all is_digit l) ls
        \<and> port_ok q \<and> path_tail_ok p)"

definition isDomainLike :: "string \<Rightarrow> bool" where
  "isDomainLike s \<longleftrightarrow> domain_re s \<or> localhost_re s \<or> ip_re s"

text \<open>\<open>/^\d+\./\<close>.\<close>

definition digits_dot_prefix :: "string \<Rightarrow> bool" where
  "digits_dot_prefix s \<longleftrightarrow>
     (let d = takeWhile is_digit s in d \<noteq> [] \<and> drop (length d) s \<noteq> [] \<and> hd (drop (length d) s) = CHR ''.'')"

subsection \<open>\<open>encodeURIComponent\<close> and its inverse\<close>

definition unreserved :: "char \<Rightarrow> bool" where
  "unreserved c \<longleftrightarrow> is_alpha c \<or> is_digit c \<or> c \<in> set ''-_.!~*'()''"

definition hex_digit :: "nat \<Rightarrow> char" where
  "hex_digit n = ''0123456789ABCDEF'' ! n"

definition pct :: "char \<Rightarrow> string" where
  "pct c = [CHR ''%'', hex_digit (of_char c div 16), hex_digit (of_char c mod 16)]"

definition encodeURIComponent :: "string \<Rightarrow> string" where
  "encodeURIComponent s = concat (map (\<lambda>c. if unreserved c then [c] else pct c) s)"

definition hex_val :: "char \<Rightarrow> nat option" where
  "hex_val c = (if is_digit c then Some (of_char c - 48)
                else if CHR ''A'' \<le> c \<and> c \<le> CHR ''F'' then Some (of_char c - 55)
                else if CHR ''a'' \<le> c \<and> c \<le> CHR ''f'' then Some (of_char c - 87) else None)"

text \<open>\<open>decodeURIComponent\<close> on byte strings; a malformed escape is its \<open>URIError\<close>.\<close>

fun decodeURIComponent :: "string \<Rightarrow> string option" where
  "decodeURIComponent [] = Some []"
| "decodeURIComponent (c # s) =
     (if c = CHR ''%'' then
        (case s of h # l # r \<Rightarrow>
           (case (hex_val h, hex_val l) of
              (Some a, Some b) \<Rightarrow> map_option (Cons (char_of (16 * a + b))) (decodeURIComponent r)
            | _ \<Rightarrow> None)
         | _ \<Rightarrow> None)
      else map_option (Cons c) (decodeURIComponent s))"

subsection \<open>The resolvers\<close>

abbreviation DEFAULT_ENGINE :: string where
  "DEFAULT_ENGINE \<equiv> ''https://www.google.com/search?q=''"

text \<open>
  The URL \<open>handleKeyDown\<close> computes on Enter from the address-bar text \<open>url\<close>, or
  \<open>None\<close> when the trimmed text is empty (the early return).  Note that the test
  \<open>/^\d+\./.test(url)\<close> reads the untrimmed text, and the https rewrite strips the
  \<open>http://\<close> prefix that was just added.
\<close>

definition resolveInput :: "string \<Rightarrow> string \<Rightarrow> url option" where
  "resolveInput searchEngine url =
     (let finalUrl = js_trim url in
      if finalUrl = [] then None
      else if validateUrl finalUrl then Some finalUrl
      else if isDomainLike finalUrl then
        (let f = ''http://'' @ finalUrl in
         if \<not> str_includes f ''localhost'' \<and> \<not> digits_dot_prefix url then Some (''https://'' @ drop 7 f)
         else Some f)
      else Some (str_or searchEngine DEFAULT_ENGINE @ encodeURIComponent finalUrl))"

text \<open>\<open>/^https?:\/\//i\<close>.\<close>

definition http_prefix_ci :: "string \<Rightarrow> bool" where
  "http_prefix_ci s \<longleftrightarrow> (let l = map lower s in startsWith l ''http://'' \<or> startsWith l ''https://'')"

definition newTabSearch :: "string \<Rightarrow> string \<Rightarrow> url option" where
  "newTabSearch searchEngine query =
     (let url = js_trim query in
      if url = [] then None
      else if \<not> http_prefix_ci url then
        (if CHR ''.'' \<in> set url \<and> CHR '' '' \<notin> set url then Some (''https://'' @ url)
         else Some (str_or searchEngine DEFAULT_ENGINE @ encodeURIComponent url))
      else Some url)"

text \<open>The address bar shows the active tab's URL with \<open>/^https?:\/\//\<close> removed
  (the two effects of \<open>TopBar.jsx\<close>, lines 9--25, while the input is not focused).\<close>

definition displayUrl :: "url \<Rightarrow> string" where
  "displayUrl u = (if startsWith u ''http://'' then drop 7 u
                   else if startsWith u ''https://'' then drop 8 u else u)"

subsection \<open>Evaluation rules\<close>

lemmas url_eval = resolveInput_def newTabSearch_def validateUrl_def url_parses_def special_authority_ok_def
  js_trim_def is_space_def scheme_char_def special_scheme_def forbidden_host_char_def
  isDomainLike_def domain_re_def localhost_re_def ip_re_def host_port_path_def
  is_alpha_def is_digit_def port_ok_def path_tail_ok_def digits_dot_prefix_def http_prefix_ci_def
  encodeURIComponent_def unreserved_def pct_def hex_digit_def displayUrl_def lower_def url_split_def url_hostname_def url_pathname_def Let_def str_or_def

subsection \<open>Encoding: round trip, alphabet and length\<close>

lemma hex_val_hex_digit_all: "\<forall>n<16. hex_val (hex_digit n) = Some n"
  by (simp add: hex_digit_def hex_val_def is_digit_def All_less_Suc numeral_eq_Suc)

lemma hex_val_hex_digit: "n < 16 \<Longrightarrow> hex_val (hex_digit n) = Some n"
  using hex_val_hex_digit_all by blast

lemma char_of_pct_digits: "char_of (16 * (of_char c div 16) + of_char c mod (16::nat)) = c"
  by simp

lemma unreserved_not_pct: "unreserved c \<Longrightarrow> c \<noteq> CHR ''%''"
  by (auto simp: unreserved_def is_alpha_def is_digit_def)

lemma decode_pct: "decodeURIComponent (pct c @ r) = map_option (Cons c) (decodeURIComponent r)"
proof -
  have "of_char c div 16 < (16::nat)" using nat_of_char_less_256 [of c] by (simp add: less_mult_imp_div_less)
  then show ?thesis by (simp add: pct_def hex_val_hex_digit)
qed

lemma decode_encode: "decodeURIComponent (encodeURIComponent s) = Some s"
  by (induction s) (auto simp: encodeURIComponent_def decode_pct dest: unreserved_not_pct)

lemma hex_digit_unreserved_all: "\<forall>n<16. unreserved (hex_digit n)"
  by (simp add: hex_digit_def unreserved_def is_alpha_def is_digit_def All_less_Suc numeral_eq_Suc)

lemma pct_chars: "list_all (\<lambda>x. unreserved x \<or> x = CHR ''%'') (pct c)"
proof -
  have "of_char c div 16 < (16::nat)" "of_char c mod 16 < (16::nat)"
    using nat_of_char_less_256 [of c] by (simp_all add: less_mult_imp_div_less)
  then show ?thesis using hex_digit_unreserved_all by (simp add: pct_def)
qed

lemma encode_chars: "list_all (\<lambda>x. unreserved x \<or> x = CHR ''%'') (encodeURIComponent s)"
  by (induction s) (auto simp: encodeURIComponent_def pct_chars)


subsection \<open>Properties of the resolvers\<close>

text \<open>Claim C22: Enter on an address bar holding only white space navigates nowhere (the early return), and any other text yields a target URL.\<close>

lemma resolveInput_None_iff: "resolveInput e u = None \<longleftrightarrow> js_trim u = []"
  by (simp add: resolveInput_def Let_def)

text \<open>Claim C20: text that is neither a URL nor domain-like is sent to the search engine, and the query appended to the template decodes back to the trimmed text.\<close>

lemma resolveInput_search:
  assumes "js_trim u \<noteq> []" "\<not> validateUrl (js_trim u)" "\<not> isDomainLike (js_trim u)"
  shows "\<exists>q. resolveInput e u = Some (str_or e DEFAULT_ENGINE @ q) \<and> decodeURIComponent q = Some (js_trim u)"
  using assms by (simp add: resolveInput_def Let_def decode_encode)

lemma resolveInput_search_witness:
  "js_trim ''how to bake bread'' \<noteq> [] \<and> \<not> validateUrl (js_trim ''how to bake bread'') \<and> \<not> isDomainLike (js_trim ''how to bake bread'') \<and>
   (\<exists>q. resolveInput '''' ''how to bake bread'' = Some (DEFAULT_ENGINE @ q) \<and> decodeURIComponent q = Some ''how to bake bread'')"
proof -
  have "js_trim ''how to bake bread'' = ''how to bake bread''" "\<not> validateUrl ''how to bake bread''"
    "\<not> isDomainLike ''how to bake bread''"
    by (simp_all add: url_eval)
  then show ?thesis using resolveInput_search [of "''how to bake bread''" "''''"] by (simp add: str_or_def)
qed




lemma resolvers_disagree_localhost:
  "resolveInput e ''localhost:3000'' = Some ''localhost:3000'' \<and>
   newTabSearch e ''localhost:3000'' = Some (str_or e DEFAULT_ENGINE @ ''localhost%3A3000'')"
  by (simp add: url_eval)



lemma resolveInput_None_iff_witness: "resolveInput '''' '' '' = None"
  using resolveInput_None_iff [of "''''" "'' ''"] by (simp add: js_trim_def is_space_def)

subsection \<open>The address bar round trip\<close>

lemma displayUrl_https: "displayUrl (''https://'' @ h) = h"
  by (simp add: displayUrl_def)

lemma domain_re_Nil: "\<not> domain_re []"
  by (simp add: domain_re_def host_port_path_def)

text \<open>Claim C24: pressing Enter on the address bar as it displays an https page (the URL without its scheme) navigates back to that same URL, for an ordinary domain host.\<close>

lemma enter_redisplay_https:
  assumes "js_trim h = h" "\<not> validateUrl h" "domain_re h" "\<not> str_includes h ''localhost''" "\<not> digits_dot_prefix h"
  shows "resolveInput e (displayUrl (''https://'' @ h)) = Some (''https://'' @ h)"
  unfolding displayUrl_https using assms domain_re_Nil by (auto simp: resolveInput_def isDomainLike_def Let_def)

lemma enter_redisplay_https_witness:
  "js_trim ''example.com/a'' = ''example.com/a'' \<and> \<not> validateUrl ''example.com/a'' \<and> domain_re ''example.com/a'' \<and>
   \<not> str_includes ''example.com/a'' ''localhost'' \<and> \<not> digits_dot_prefix ''example.com/a'' \<and>
   resolveInput '''' (displayUrl ''https://example.com/a'') = Some ''https://example.com/a''"
proof -
  have h: "js_trim ''example.com/a'' = ''example.com/a'' \<and> \<not> validateUrl ''example.com/a'' \<and> domain_re ''example.com/a'' \<and>
   \<not> str_includes ''example.com/a'' ''localhost'' \<and> \<not> digits_dot_prefix ''example.com/a''"
    by (simp add: url_eval)
  then show ?thesis using enter_redisplay_https [of "''example.com/a''" "''''"] by simp
qed



subsection \<open>Length of the resolved URL\<close>




end
