(* ===== verification/Shell.thy ===== *)
theory Shell
  imports Tabs History Bookmarks Urls
begin

text \<open>
  The navigation layer of \<open>src/src/src/App.jsx\<close>, which ties the registry, the history
  store and the resolver together: \<open>updateTab\<close> (the single history-write path),
  \<open>smartNavigate\<close> with its \<open>normalize\<close>, and the callers that reach them: the
  address bar's Enter (\<open>TopBar.jsx\<close>, through App's \<open>addTab\<close>/\<open>onNavigate\<close>
  props), the bookmarks bar and sidebar (singleton navigation) and the History page
  (\<open>onVisit\<close>).  The shell state is the registry, the stored history and the bookmark
  list; ids and times that \<open>Math.random\<close>/\<open>Date.now\<close> produce are arguments.
\<close>

record shell =
  sh_app :: app
  sh_history :: "hentry list"
  sh_bookmarks :: "bookmark list"

subsection \<open>Operations\<close>

text \<open>\<open>updateTab(url, title, isLoading, favicon)\<close> (lines 107--120): the active tab's
  update, then the history entry when the load has completed with a title on a
  non-internal URL.\<close>

definition updateTab ::
  "url \<Rightarrow> string \<Rightarrow> bool \<Rightarrow> string option \<Rightarrow> string \<Rightarrow> timestamp \<Rightarrow> shell \<Rightarrow> shell" where
  "updateTab u t l f hid ts sh =
     sh\<lparr>sh_app := updateActiveTab u t l f (sh_app sh),
        sh_history := (if \<not> l \<and> u \<noteq> [] \<and> t \<noteq> [] \<and> \<not> startsWith u INTERNAL_SCHEME
                       then addEntry t u f hid ts (sh_history sh) else sh_history sh)\<rparr>"

text \<open>\<open>.replace(/\/$/, '')\<close>.\<close>

definition strip_trailing_slash :: "string \<Rightarrow> string" where
  "strip_trailing_slash s = (if s \<noteq> [] \<and> last s = CHR ''/'' then butlast s else s)"

text \<open>\<open>normalize\<close> (lines 126--132): host without its first \<open>www.\<close> and path without
  a final slash for a parsable URL, else the text without \<open>http(s)://\<close> (the same
  replacement as the address bar's display) and without a final slash.\<close>

definition normalize :: "url \<Rightarrow> string" where
  "normalize u =
     (if u = [] then []
      else if url_parses u then replace_first ''www.'' [] (url_hostname u) @ strip_trailing_slash (url_pathname u)
      else strip_trailing_slash (displayUrl u))"

text \<open>\<open>smartNavigate(url, title, {singleton})\<close> (lines 123--149).  The new tab's id and
  the history id and time of the in-place update are arguments.\<close>

definition smartNavigate ::
  "tab_id \<Rightarrow> string \<Rightarrow> timestamp \<Rightarrow> url \<Rightarrow> string \<Rightarrow> bool \<Rightarrow> shell \<Rightarrow> shell" where
  "smartNavigate i hid ts u t singleton sh =
     (let s = sh_app sh in
      case (if singleton then find (\<lambda>tb. normalize (tab_url tb) = normalize u) (tabs s) else None) of
        Some existing \<Rightarrow> sh\<lparr>sh_app := setActiveTab (tab_id existing) s\<rparr>
      | None \<Rightarrow>
          (case find (\<lambda>tb. Some (tab_id tb) = activeTab s) (tabs s) of
             Some current \<Rightarrow>
               if tab_url current = NEWTAB_URL \<or> tab_url current = [] then updateTab u (str_or t u) True None hid ts sh
               else sh\<lparr>sh_app := addTab i u t False s\<rparr>
           | None \<Rightarrow> sh\<lparr>sh_app := addTab i u t False s\<rparr>))"

text \<open>Enter in the address bar (TopBar.jsx, lines 36--63): the resolved URL goes to
  App's \<open>addTab\<close> prop (\<open>smartNavigate(url || homepage, title)\<close>, App.jsx line 269)
  when no tab is active and to \<open>onNavigate\<close> (\<open>smartNavigate(url, url)\<close>, line 271)
  otherwise.\<close>

definition addressBarEnter ::
  "tab_id \<Rightarrow> string \<Rightarrow> timestamp \<Rightarrow> url \<Rightarrow> string \<Rightarrow> string \<Rightarrow> shell \<Rightarrow> shell" where
  "addressBarEnter i hid ts homepage engine text sh =
     (case resolveInput engine text of
        None \<Rightarrow> sh
      | Some f \<Rightarrow>
          if find (\<lambda>tb. Some (tab_id tb) = activeTab (sh_app sh)) (tabs (sh_app sh)) = None
          then smartNavigate i hid ts (str_or f (if homepage \<noteq> NEWTAB_URL then homepage else NEWTAB_URL)) f False sh
          else smartNavigate i hid ts f f False sh)"


subsection \<open>Evaluation rules\<close>

lemmas shell_eval = normalize_def strip_trailing_slash_def url_eval

subsection \<open>Navigation never writes history; updateTab is the only history write\<close>

lemma sh_history_smartNavigate [simp]: "sh_history (smartNavigate i hid ts u t sg sh) = sh_history sh"
  by (auto simp: smartNavigate_def updateTab_def Let_def split: option.splits)

lemma sh_bookmarks_smartNavigate [simp]: "sh_bookmarks (smartNavigate i hid ts u t sg sh) = sh_bookmarks sh"
  by (auto simp: smartNavigate_def updateTab_def Let_def split: option.splits)

text \<open>Claim C26: updateTab changes the stored history only for a completed load with a title on a non-empty, non-internal URL, and then exactly by HistoryManager.addEntry.\<close>

lemma updateTab_history_sole_path:
  "sh_history (updateTab u t l f hid ts sh) \<noteq> sh_history sh \<Longrightarrow>
     \<not> l \<and> t \<noteq> [] \<and> external_url u \<and> sh_history (updateTab u t l f hid ts sh) = addEntry t u f hid ts (sh_history sh)"
  by (auto simp: updateTab_def external_url_def split: if_splits)

subsection \<open>Navigation is one registry command\<close>

lemma find_distinct_id:
  "distinct (map tab_id xs) \<Longrightarrow> tb \<in> set xs \<Longrightarrow> find (\<lambda>x. Some (tab_id x) = Some (tab_id tb)) xs = Some tb"
  by (induction xs) (auto simp: image_iff)

lemma timers_apply_cmd_noclose:
  "timers s = [] \<Longrightarrow> \<forall>n x. c \<noteq> CClose n x \<Longrightarrow> timers (apply_cmd c s) = []"
  by (cases c) (auto simp: addTab_def setActiveTab_def togglePinTab_def Let_def)

lemma smartNavigate_cmd:
  assumes "i \<notin> set (tab_ids (sh_app sh))"
  shows "\<exists>c. cmd_ok c (sh_app sh) \<and> (\<forall>n x. c \<noteq> CClose n x) \<and>
             sh_app (smartNavigate i hid ts u t sg sh) = apply_cmd c (sh_app sh)"
proof -
  let ?s = "sh_app sh"
  have sel: "\<exists>c. cmd_ok c ?s \<and> (\<forall>n x. c \<noteq> CClose n x) \<and> setActiveTab (tab_id ex) ?s = apply_cmd c ?s"
    if "ex \<in> set (tabs ?s)" for ex
    using that by (intro exI [of _ "CSelect (tab_id ex)"]) auto
  have upd: "\<exists>c. cmd_ok c ?s \<and> (\<forall>n x. c \<noteq> CClose n x) \<and> updateActiveTab u' t' True None ?s = apply_cmd c ?s" for u' t'
    by (intro exI [of _ "CUpdate u' t' True None"]) auto
  have add: "\<exists>c. cmd_ok c ?s \<and> (\<forall>n x. c \<noteq> CClose n x) \<and> addTab i u t False ?s = apply_cmd c ?s"
    using assms by (intro exI [of _ "CAdd i u t"]) auto
  show ?thesis
    using sel upd add
    by (auto simp: smartNavigate_def updateTab_def Let_def find_Some_iff split: option.splits if_splits)
qed

lemma wf_smartNavigate:
  "wf_app (sh_app sh) \<Longrightarrow> i \<notin> set (tab_ids (sh_app sh)) \<Longrightarrow> wf_app (sh_app (smartNavigate i hid ts u t sg sh))"
  using smartNavigate_cmd [of i sh hid ts u t sg] wf_apply_cmd timers_apply_cmd_noclose
  by (metis drain_idle wf_app_def)

subsection \<open>Properties of navigation\<close>

text \<open>Claim C27: singleton navigation (bookmarks bar, sidebar) to a URL whose normalized form matches an open tab's activates such a tab and leaves the tab list unchanged.\<close>

lemma singleton_activates_existing:
  assumes "tb \<in> set (tabs (sh_app sh))" "normalize (tab_url tb) = normalize u"
  shows "tabs (sh_app (smartNavigate i hid ts u t True sh)) = tabs (sh_app sh) \<and>
         (\<exists>ex\<in>set (tabs (sh_app sh)). activeTab (sh_app (smartNavigate i hid ts u t True sh)) = Some (tab_id ex)
             \<and> normalize (tab_url ex) = normalize u)"
proof -
  obtain ex where ex: "find (\<lambda>x. normalize (tab_url x) = normalize u) (tabs (sh_app sh)) = Some ex"
    using assms by (cases "find (\<lambda>x. normalize (tab_url x) = normalize u) (tabs (sh_app sh))")
      (auto simp: find_None_iff)
  then have "ex \<in> set (tabs (sh_app sh))" "normalize (tab_url ex) = normalize u"
    by (auto simp: find_Some_iff)
  with ex show ?thesis by (auto simp: smartNavigate_def setActiveTab_def)
qed

text \<open>Claim C28: ordinary navigation rewrites the active tab in place when it shows the new-tab page or nothing, and otherwise opens a new tab with the fresh id and activates it.\<close>

lemma smartNavigate_not_singleton:
  assumes "distinct (tab_ids (sh_app sh))" "activeTab (sh_app sh) = Some (tab_id tb)" "tb \<in> set (tabs (sh_app sh))" "u \<noteq> []"
  shows "tab_ids (sh_app (smartNavigate i hid ts u t False sh)) =
           (if tab_url tb = NEWTAB_URL \<or> tab_url tb = [] then tab_ids (sh_app sh) else tab_ids (sh_app sh) @ [i]) \<and>
         (tab_url tb = NEWTAB_URL \<or> tab_url tb = [] \<longrightarrow>
            activeTab (sh_app (smartNavigate i hid ts u t False sh)) = Some (tab_id tb) \<and>
            (\<forall>x\<in>set (tabs (sh_app (smartNavigate i hid ts u t False sh))). tab_id x = tab_id tb \<longrightarrow> tab_url x = u \<and> tab_isLoading x)) \<and>
         (\<not> (tab_url tb = NEWTAB_URL \<or> tab_url tb = []) \<longrightarrow>
            activeTab (sh_app (smartNavigate i hid ts u t False sh)) = Some i)"
proof -
  have f: "find (\<lambda>x. Some (tab_id x) = activeTab (sh_app sh)) (tabs (sh_app sh)) = Some tb"
    using find_distinct_id [OF assms(1) assms(3)] assms(2) by simp
  show ?thesis
    using f assms(2,4)
    by (auto simp: smartNavigate_def updateTab_def updateActiveTab_def addTab_def str_or_def Let_def)
qed

lemma resolveInput_nonempty: "resolveInput e u = Some f \<Longrightarrow> f \<noteq> []"
  by (auto simp: resolveInput_def Let_def str_or_def split: if_splits)

text \<open>Claim C29: Enter in the address bar behaves the same whether or not a tab is active: the homepage fallback of App's addTab prop is never taken, because a resolved URL is never empty.\<close>

lemma addressBarEnter_eq_onNavigate:
  "addressBarEnter i hid ts homepage e text sh =
     (case resolveInput e text of None \<Rightarrow> sh | Some f \<Rightarrow> smartNavigate i hid ts f f False sh)"
  by (auto simp: addressBarEnter_def str_or_def dest: resolveInput_nonempty split: option.splits)


lemma singleton_activates_existing_witness:
  "tabs (sh_app (smartNavigate ''n'' ''h'' 0 ''https://example.com'' ''E'' True
     \<lparr>sh_app = \<lparr>tabs = [\<lparr>tab_id = ''a'', tab_title = ''E'', tab_url = ''https://www.example.com/'', tab_isPinned = False, tab_isLoading = False, tab_favicon = None\<rparr>],
                activeTab = Some ''a'', timers = []\<rparr>, sh_history = [], sh_bookmarks = []\<rparr>)) =
     [\<lparr>tab_id = ''a'', tab_title = ''E'', tab_url = ''https://www.example.com/'', tab_isPinned = False, tab_isLoading = False, tab_favicon = None\<rparr>]"
proof -
  have "normalize ''https://www.example.com/'' = normalize ''https://example.com''" by (simp add: shell_eval)
  then show ?thesis
    using singleton_activates_existing [of "\<lparr>tab_id = ''a'', tab_title = ''E'', tab_url = ''https://www.example.com/'', tab_isPinned = False, tab_isLoading = False, tab_favicon = None\<rparr>"
        "\<lparr>sh_app = \<lparr>tabs = [\<lparr>tab_id = ''a'', tab_title = ''E'', tab_url = ''https://www.example.com/'', tab_isPinned = False, tab_isLoading = False, tab_favicon = None\<rparr>],
                activeTab = Some ''a'', timers = []\<rparr>, sh_history = [], sh_bookmarks = []\<rparr>" "''https://example.com''" "''n''" "''h''" 0 "''E''"]
    by simp
qed


lemma smartNavigate_not_singleton_witness:
  "tab_ids (sh_app (smartNavigate ''n'' ''h'' 0 ''https://a.org'' ''A'' False
     \<lparr>sh_app = \<lparr>tabs = [\<lparr>tab_id = ''x'', tab_title = ''New Tab'', tab_url = NEWTAB_URL, tab_isPinned = False, tab_isLoading = False, tab_favicon = None\<rparr>],
                activeTab = Some ''x'', timers = []\<rparr>, sh_history = [], sh_bookmarks = []\<rparr>)) = [''x'']"
  using smartNavigate_not_singleton [of
      "\<lparr>sh_app = \<lparr>tabs = [\<lparr>tab_id = ''x'', tab_title = ''New Tab'', tab_url = NEWTAB_URL, tab_isPinned = False, tab_isLoading = False, tab_favicon = None\<rparr>],
                activeTab = Some ''x'', timers = []\<rparr>, sh_history = [], sh_bookmarks = []\<rparr>"
      "\<lparr>tab_id = ''x'', tab_title = ''New Tab'', tab_url = NEWTAB_URL, tab_isPinned = False, tab_isLoading = False, tab_favicon = None\<rparr>"
      "''https://a.org''" "''n''" "''h''" 0 "''A''"]
  by simp

lemma updateTab_history_sole_path_witness:
  "sh_history (updateTab ''https://a.org'' ''A'' False None ''h'' 7 \<lparr>sh_app = app_init, sh_history = [], sh_bookmarks = []\<rparr>) =
     addEntry ''A'' ''https://a.org'' None ''h'' 7 []"
proof -
  have "sh_history (updateTab ''https://a.org'' ''A'' False None ''h'' 7 \<lparr>sh_app = app_init, sh_history = [], sh_bookmarks = []\<rparr>) \<noteq> []"
    by (simp add: updateTab_def addEntry_def)
  then show ?thesis
    using updateTab_history_sole_path [of "''https://a.org''" "''A''" False None "''h''" 7 "\<lparr>sh_app = app_init, sh_history = [], sh_bookmarks = []\<rparr>"]
    by simp
qed



lemma addressBarEnter_eq_onNavigate_witness:
  "addressBarEnter ''n'' ''h'' 0 NEWTAB_URL '''' ''example.com'' \<lparr>sh_app = app_init, sh_history = [], sh_bookmarks = []\<rparr> =
   smartNavigate ''n'' ''h'' 0 ''https://example.com'' ''https://example.com'' False \<lparr>sh_app = app_init, sh_history = [], sh_bookmarks = []\<rparr>"
proof -
  have "resolveInput '''' ''example.com'' = Some ''https://example.com''" by (simp add: url_eval)
  then show ?thesis using addressBarEnter_eq_onNavigate [of "''n''" "''h''" 0 NEWTAB_URL "''''" "''example.com''"] by simp
qed

end
