(* ===== verification/Coordinator.thy ===== *)
theory Coordinator
  imports Shell
begin

text \<open>
  The event coordinator \<open>src/src/src/components/BrowserWindow.jsx\<close>: the component that
  renders the active tab (an internal page, a \<open>webview\<close>, or the error overlay) and
  forwards the webview's events to App's \<open>updateTab\<close> (its \<open>onVisit\<close> prop).  Its
  state is the React state \<open>error\<close> and \<open>showFind\<close>, whether the webview listeners are
  bound, whether the title-polling interval is running, and what the component has set on
  the webview (zoom factor, injected blocker script).  The listener effect (lines 87--203)
  has the dependency list \<open>[]\<close>: it runs once, after the first render, and binds the
  listeners only if a webview exists then.  The handlers read the latest tab through
  \<open>tabRef\<close> but the zoom level and blocker flag of that first render.
\<close>

record err =
  err_code :: int
  err_desc :: string
  err_url :: url

text \<open>The webview's events with the fields the handlers read; \<open>StopLoading\<close>,
  \<open>Navigate\<close> and \<open>NavigateInPage\<close> carry \<open>webview.getURL()\<close>/\<open>getTitle()\<close> at
  the time of the event.\<close>

datatype wv_event =
    StartLoading
  | StopLoading url string
  | FaviconUpdated "string list"
  | FailLoad int string url
  | Navigate url string
  | NavigateInPage url string
  | ResponseDetails nat string string url url
  | DomReady

record bw =
  bw_shell :: shell
  bw_error :: "err option"
  bw_showFind :: bool
  bw_bound :: bool
  bw_interval :: bool
  bw_zoom :: jsnum
  bw_adBlock :: bool
  bw_cap_zoom :: jsnum
  bw_cap_adBlock :: bool
  bw_wv_zoom :: "jsnum option"
  bw_injected :: bool

subsection \<open>Operations\<close>

text \<open>The \<open>tab\<close> prop: \<open>tabs.find(t => t.id === activeTab)\<close> (App.jsx, line 232).\<close>

definition active_tab :: "shell \<Rightarrow> tab option" where
  "active_tab sh = find (\<lambda>tb. Some (tab_id tb) = activeTab (sh_app sh)) (tabs (sh_app sh))"

text \<open>A \<open>webview\<close> element is rendered for a tab with a non-internal, non-empty URL
  (lines 245--246 and 317--328).\<close>

definition webview_present :: "shell \<Rightarrow> bool" where
  "webview_present sh =
     (case active_tab sh of None \<Rightarrow> False
      | Some tb \<Rightarrow> tab_url tb \<noteq> [] \<and> \<not> startsWith (tab_url tb) INTERNAL_SCHEME)"

text \<open>The mount of the component with the first render's props: the listener effect binds
  only if the webview exists and captures the zoom level and blocker flag.\<close>

definition bw_mount :: "shell \<Rightarrow> jsnum \<Rightarrow> bool \<Rightarrow> bw" where
  "bw_mount sh z ab =
     \<lparr>bw_shell = sh, bw_error = None, bw_showFind = False, bw_bound = webview_present sh,
      bw_interval = False, bw_zoom = z, bw_adBlock = ab, bw_cap_zoom = z, bw_cap_adBlock = ab,
      bw_wv_zoom = None, bw_injected = False\<rparr>"

text \<open>\<open>onVisitRef.current(...)\<close> is App's \<open>updateTab\<close>; the history id and time are
  arguments of the handlers.\<close>

definition onVisit :: "string \<Rightarrow> timestamp \<Rightarrow> url \<Rightarrow> string \<Rightarrow> bool \<Rightarrow> string option \<Rightarrow> bw \<Rightarrow> bw" where
  "onVisit hid ts u t l f b = b\<lparr>bw_shell := updateTab u t l f hid ts (bw_shell b)\<rparr>"

text \<open>\<open>tabRef.current?.favicon\<close>.\<close>

definition cur_favicon :: "bw \<Rightarrow> string option" where
  "cur_favicon b = (case active_tab (bw_shell b) of Some tb \<Rightarrow> tab_favicon tb | None \<Rightarrow> None)"

text \<open>The eight handlers of lines 91--176.\<close>

fun handleEvent :: "string \<Rightarrow> timestamp \<Rightarrow> wv_event \<Rightarrow> bw \<Rightarrow> bw" where
  "handleEvent hid ts StartLoading b =
     (let b' = b\<lparr>bw_error := None\<rparr> in
      case active_tab (bw_shell b) of
        Some tb \<Rightarrow> if tab_url tb \<noteq> [] then onVisit hid ts (tab_url tb) (tab_title tb) True (tab_favicon tb) b' else b'
      | None \<Rightarrow> b')"
| "handleEvent hid ts (StopLoading u t) b =
     (let b' = (if u \<noteq> [] then onVisit hid ts u t False (cur_favicon b) b else b)
      in b'\<lparr>bw_wv_zoom := Some (bw_cap_zoom b)\<rparr>)"
| "handleEvent hid ts (FaviconUpdated fs) b =
     (case active_tab (bw_shell b) of
        Some tb \<Rightarrow> onVisit hid ts (tab_url tb) (tab_title tb) False (nth_opt fs 0) b
      | None \<Rightarrow> b)"
| "handleEvent hid ts (FailLoad code desc vurl) b =
     (if code = -3 then b
      else (let b' = b\<lparr>bw_error := Some \<lparr>err_code = code, err_desc = desc, err_url = vurl\<rparr>\<rparr> in
            case active_tab (bw_shell b) of
              Some tb \<Rightarrow> onVisit hid ts vurl ''Error loading page'' False (tab_favicon tb) b'
            | None \<Rightarrow> b'))"
| "handleEvent hid ts (Navigate u t) b =
     (if u \<noteq> [] then onVisit hid ts u t True (cur_favicon b) b else b)"
| "handleEvent hid ts (NavigateInPage u t) b =
     (if u \<noteq> [] then onVisit hid ts u t False (cur_favicon b) b else b)"
| "handleEvent hid ts (ResponseDetails code rtype status newURL origURL) b =
     (case active_tab (bw_shell b) of
        Some tb \<Rightarrow>
          if 400 \<le> code \<and> (str_includes (map lower rtype) ''main'' \<or> newURL = tab_url tb \<or> origURL = tab_url tb)
          then b\<lparr>bw_error := Some \<lparr>err_code = int code, err_desc = str_or status ''HTTP Error'',
                                   err_url = str_or newURL (tab_url tb)\<rparr>\<rparr>
          else b
      | None \<Rightarrow> b)"
| "handleEvent hid ts DomReady b =
     b\<lparr>bw_wv_zoom := Some (bw_cap_zoom b), bw_injected := (bw_injected b \<or> bw_cap_adBlock b)\<rparr>"

text \<open>An event reaches its handler only if the listeners were bound.\<close>

definition deliverEvent :: "string \<Rightarrow> timestamp \<Rightarrow> wv_event \<Rightarrow> bw \<Rightarrow> bw" where
  "deliverEvent hid ts ev b = (if bw_bound b then handleEvent hid ts ev b else b)"

text \<open>The zoom effect (lines 49--53) and the \<open>browser-find\<close> toggle (line 72).\<close>

definition setZoom :: "jsnum \<Rightarrow> bw \<Rightarrow> bw" where
  "setZoom z b = b\<lparr>bw_zoom := z, bw_wv_zoom := (if webview_present (bw_shell b) then Some z else bw_wv_zoom b)\<rparr>"

definition toggleFind :: "bw \<Rightarrow> bw" where
  "toggleFind b = b\<lparr>bw_showFind := \<not> bw_showFind b\<rparr>"

text \<open>The \<open>[tab]\<close> effect (lines 205--227) runs after every render that changes the tab
  object: the old interval is cleared and a new one started when a webview and a tab
  exist.\<close>

definition tabEffect :: "bw \<Rightarrow> bw" where
  "tabEffect b = b\<lparr>bw_interval := webview_present (bw_shell b)\<rparr>"

text \<open>One tick of the 100\,ms interval, with the title the webview reports: on a change it
  commits and clears the interval, and the commit re-renders with a new tab object, which
  re-runs the effect.  The result tells whether a commit happened.\<close>

definition pollTick :: "string \<Rightarrow> timestamp \<Rightarrow> string \<Rightarrow> bw \<Rightarrow> bw \<times> bool" where
  "pollTick hid ts title b =
     (case active_tab (bw_shell b) of
        Some tb \<Rightarrow>
          if bw_interval b \<and> tab_title tb \<noteq> title
          then (tabEffect ((onVisit hid ts (tab_url tb) title False (tab_favicon tb) b)\<lparr>bw_interval := False\<rparr>), True)
          else (b, False)
      | None \<Rightarrow> (b, False))"

text \<open>The interval over a sequence of observed titles, one per tick; the count is the
  number of commits (each one a re-render of the whole application).\<close>

fun pollRun :: "string \<Rightarrow> timestamp \<Rightarrow> string list \<Rightarrow> bw \<Rightarrow> bw \<times> nat" where
  "pollRun hid ts [] b = (b, 0)"
| "pollRun hid ts (t # obs) b =
     (case pollTick hid ts t b of (b', c) \<Rightarrow>
        (case pollRun hid ts obs b' of (b'', n) \<Rightarrow> (b'', (if c then Suc n else n))))"

text \<open>The internal-page title effect (lines 230--239).\<close>

definition internalTitle :: "string \<Rightarrow> timestamp \<Rightarrow> bw \<Rightarrow> bw" where
  "internalTitle hid ts b =
     (case active_tab (bw_shell b) of
        None \<Rightarrow> b
      | Some tb \<Rightarrow>
          if tab_url tb = ''browser://settings'' \<and> tab_title tb \<noteq> ''Settings'' then onVisit hid ts (tab_url tb) ''Settings'' False None b
          else if tab_url tb = ''browser://history'' \<and> tab_title tb \<noteq> ''History'' then onVisit hid ts (tab_url tb) ''History'' False None b
          else if tab_url tb = ''browser://downloads'' \<and> tab_title tb \<noteq> ''Downloads'' then onVisit hid ts (tab_url tb) ''Downloads'' False None b
          else b)"

subsection \<open>Rendering\<close>

datatype view = Blank | VNewTab | VSettings | VHistory | VDownloads | VNotFound url | VWeb url

datatype js_exn = ReferenceError string | TypeError string

text \<open>What the component renders (lines 241--328).  The error overlay calls
  \<open>getErrorDetails\<close>, which is defined nowhere: rendering it throws.\<close>

definition render :: "shell \<Rightarrow> err option \<Rightarrow> js_exn + view" where
  "render sh e =
     (case active_tab sh of
        None \<Rightarrow> Inr Blank
      | Some tb \<Rightarrow>
          (let u = tab_url tb in
           if u = [] then Inr Blank
           else if startsWith u INTERNAL_SCHEME then
             Inr (if u = NEWTAB_URL then VNewTab else if u = ''browser://settings'' then VSettings
                  else if u = ''browser://history'' then VHistory else if u = ''browser://downloads'' then VDownloads
                  else VNotFound u)
           else if e \<noteq> None then Inl (ReferenceError ''getErrorDetails is not defined'')
           else Inr (VWeb u)))"

subsection \<open>A sample state\<close>

text \<open>One tab on \<open>https://a.org\<close>, active, whose title is still its URL, with the
  interval running; used to instantiate the lemmas below.\<close>

definition demo_tab :: tab where
  "demo_tab = \<lparr>tab_id = ''a'', tab_title = ''https://a.org'', tab_url = ''https://a.org'',
               tab_isPinned = False, tab_isLoading = False, tab_favicon = None\<rparr>"

definition demo_bw :: bw where
  "demo_bw = tabEffect (bw_mount \<lparr>sh_app = \<lparr>tabs = [demo_tab], activeTab = Some ''a'', timers = []\<rparr>,
                                  sh_history = [], sh_bookmarks = []\<rparr> ''1'' False)"

subsection \<open>Runs of the application\<close>

text \<open>The states the component reaches: it mounts with App's first render (no tab yet,
  any stored history and bookmarks), then App's mount effect creates the first tab, and
  after that user commands, navigations, webview events, interval ticks, the internal
  title effect, zoom changes and the find toggle happen in any order.  Every change of
  the tab object re-runs the \<open>[tab]\<close> effect.\<close>

inductive bw_reach :: "bw \<Rightarrow> bool" where
  mount: "history_ok h \<Longrightarrow> bw_reach (bw_mount \<lparr>sh_app = app_init, sh_history = h, sh_bookmarks = bs\<rparr> z ab)"
| first: "bw_reach b \<Longrightarrow> bw_reach (tabEffect (b\<lparr>bw_shell := (bw_shell b)\<lparr>sh_app := initialTab i (sh_app (bw_shell b))\<rparr>\<rparr>))"
| cmd: "bw_reach b \<Longrightarrow> bw_reach (tabEffect (b\<lparr>bw_shell := (bw_shell b)\<lparr>sh_app := drain (apply_cmd c (sh_app (bw_shell b)))\<rparr>\<rparr>))"
| nav: "bw_reach b \<Longrightarrow> bw_reach (tabEffect (b\<lparr>bw_shell := smartNavigate i hid ts u t sg (bw_shell b)\<rparr>))"
| event: "bw_reach b \<Longrightarrow> bw_reach (tabEffect (deliverEvent hid ts ev b))"
| tick: "bw_reach b \<Longrightarrow> bw_reach (fst (pollTick hid ts t b))"
| internal: "bw_reach b \<Longrightarrow> bw_reach (tabEffect (internalTitle hid ts b))"
| zoom: "bw_reach b \<Longrightarrow> bw_reach (setZoom z b)"
| find: "bw_reach b \<Longrightarrow> bw_reach (toggleFind b)"

subsection \<open>Frame lemmas\<close>

lemma bw_bound_onVisit [simp]: "bw_bound (onVisit hid ts u t l f b) = bw_bound b"
  by (simp add: onVisit_def)

lemma bw_error_onVisit [simp]: "bw_error (onVisit hid ts u t l f b) = bw_error b"
  by (simp add: onVisit_def)

lemma bw_bound_handleEvent [simp]: "bw_bound (handleEvent hid ts ev b) = bw_bound b"
  by (cases ev) (auto simp: Let_def split: option.splits)

lemma deliverEvent_unbound [simp]: "\<not> bw_bound b \<Longrightarrow> deliverEvent hid ts ev b = b"
  by (simp add: deliverEvent_def)

lemma bw_bound_tabEffect [simp]: "bw_bound (tabEffect b) = bw_bound b"
  and bw_error_tabEffect [simp]: "bw_error (tabEffect b) = bw_error b"
  by (simp_all add: tabEffect_def)

lemma bw_bound_pollTick [simp]: "bw_bound (fst (pollTick hid ts t b)) = bw_bound b"
  and bw_error_pollTick [simp]: "bw_error (fst (pollTick hid ts t b)) = bw_error b"
  by (simp_all add: pollTick_def split: option.splits)

lemma bw_bound_internalTitle [simp]: "bw_bound (internalTitle hid ts b) = bw_bound b"
  and bw_error_internalTitle [simp]: "bw_error (internalTitle hid ts b) = bw_error b"
  by (simp_all add: internalTitle_def split: option.splits)

lemma active_tab_init [simp]: "active_tab \<lparr>sh_app = app_init, sh_history = h, sh_bookmarks = bs\<rparr> = None"
  by (simp add: active_tab_def app_init_def)

subsection \<open>The listeners are never bound\<close>

lemma history_ok_Nil: "history_ok []"
  by (simp add: history_ok_def)

lemma bw_reach_unbound: "bw_reach b \<Longrightarrow> \<not> bw_bound b \<and> bw_error b = None"
  by (induction rule: bw_reach.induct)
     (simp_all add: bw_mount_def webview_present_def setZoom_def toggleFind_def)

text \<open>Claim C32: in every run of the application the webview listeners are never bound, because the effect with an empty dependency list runs at mount when no tab, hence no webview, exists: every webview event is dropped and the error overlay is never rendered.\<close>

lemma listeners_never_bound:
  "bw_reach b \<Longrightarrow> \<not> bw_bound b \<and> deliverEvent hid ts ev b = b \<and> (\<forall>x. render (bw_shell b) (bw_error b) \<noteq> Inl x)"
  using bw_reach_unbound [of b]
  by (auto simp: render_def Let_def split: option.splits)

subsection \<open>The handlers\<close>

lemma listeners_never_bound_witness:
  "deliverEvent ''h'' 0 (FailLoad (-105) ''NAME_NOT_RESOLVED'' ''https://a.org'')
     (bw_mount \<lparr>sh_app = app_init, sh_history = [], sh_bookmarks = []\<rparr> ''1'' True) =
   bw_mount \<lparr>sh_app = app_init, sh_history = [], sh_bookmarks = []\<rparr> ''1'' True"
  using listeners_never_bound [OF bw_reach.mount [of "[]" "[]" "''1''" True, OF history_ok_Nil], of "''h''" 0] by simp

lemma sh_history_onVisit_loading [simp]:
  "sh_history (bw_shell (onVisit hid ts u t True f b)) = sh_history (bw_shell b)"
  by (simp add: onVisit_def updateTab_def)

text \<open>Claim C33: the load-failure handler ignores the aborted code -3; for any other code it records the error and, through updateTab with isLoading false, adds a history entry titled Error loading page for the failed URL.\<close>

lemma failLoad_handler:
  assumes "active_tab (bw_shell b) = Some tb" "external_url vurl"
          "sh_history (bw_shell b) = [] \<or> h_url (hd (sh_history (bw_shell b))) \<noteq> vurl"
  shows "handleEvent hid ts (FailLoad (-3) d vurl) b = b \<and>
         (code \<noteq> -3 \<longrightarrow>
            bw_error (handleEvent hid ts (FailLoad code d vurl) b) = Some \<lparr>err_code = code, err_desc = d, err_url = vurl\<rparr> \<and>
            sh_history (bw_shell (handleEvent hid ts (FailLoad code d vurl) b)) =
              take 1000 (\<lparr>h_id = hid, h_title = ''Error loading page'', h_url = vurl, h_favicon = tab_favicon tb, h_timestamp = ts\<rparr>
                         # sh_history (bw_shell b)))"
  using assms by (auto simp: onVisit_def updateTab_def addEntry_def external_url_def str_or_def)

text \<open>Claim C34: an HTTP error detail on a subresource whose URLs differ from the tab's leaves the state unchanged, a main-frame response of status 400 or more sets the error, and a status below 400 changes nothing.\<close>

lemma responseDetails_handler:
  assumes "active_tab (bw_shell b) = Some tb"
  shows "(\<not> str_includes (map lower rt) ''main'' \<and> nu \<noteq> tab_url tb \<and> ou \<noteq> tab_url tb \<longrightarrow>
            handleEvent hid ts (ResponseDetails code rt st nu ou) b = b) \<and>
         (400 \<le> code \<and> str_includes (map lower rt) ''main'' \<longrightarrow>
            bw_error (handleEvent hid ts (ResponseDetails code rt st nu ou) b) =
              Some \<lparr>err_code = int code, err_desc = str_or st ''HTTP Error'', err_url = str_or nu (tab_url tb)\<rparr>) \<and>
         (code < 400 \<longrightarrow> handleEvent hid ts (ResponseDetails code rt st nu ou) b = b)"
  using assms by auto


subsection \<open>The title-polling interval\<close>

lemma find_map_active:
  assumes "\<And>tb. tab_id (g tb) = tab_id tb"
  shows "find (\<lambda>tb. Some (tab_id tb) = a) (map (\<lambda>tb. if Some (tab_id tb) = a then g tb else tb) xs) =
         map_option g (find (\<lambda>tb. Some (tab_id tb) = a) xs)"
  using assms by (induction xs) auto

lemma active_tab_updateTab:
  "active_tab (updateTab u t l f hid ts sh) =
     map_option (\<lambda>tb. tb\<lparr>tab_title := str_or t (tab_title tb), tab_url := str_or u (tab_url tb),
                         tab_isLoading := l, tab_favicon := js_or f (tab_favicon tb)\<rparr>) (active_tab sh)"
  unfolding active_tab_def updateTab_def updateActiveTab_def
  by (simp add: find_map_active)

lemma pollTick_commit:
  assumes "bw_interval b" "active_tab (bw_shell b) = Some tb" "tab_title tb \<noteq> T" "webview_present (bw_shell b)"
  shows "snd (pollTick hid ts T b) \<and> bw_interval (fst (pollTick hid ts T b)) \<and>
         active_tab (bw_shell (fst (pollTick hid ts T b))) =
           Some (tb\<lparr>tab_title := str_or T (tab_title tb), tab_isLoading := False\<rparr>)"
  using assms
  by (simp add: pollTick_def tabEffect_def onVisit_def active_tab_updateTab webview_present_def str_or_def)

lemma pollTick_quiet:
  "active_tab (bw_shell b) = Some tb \<Longrightarrow> tab_title tb = T \<Longrightarrow> pollTick hid ts T b = (b, False)"
  by (simp add: pollTick_def)

lemma pollRun_quiet:
  "active_tab (bw_shell b) = Some tb \<Longrightarrow> tab_title tb = T \<Longrightarrow> pollRun hid ts (replicate n T) b = (b, 0)"
  by (induction n) (simp_all add: pollTick_quiet)

text \<open>Claim C36: while the page reports a fixed non-empty title that differs from the tab's, the interval commits it on the first tick and never again, and a new interval keeps running afterwards.\<close>

lemma poll_commits_once:
  assumes "bw_interval b" "active_tab (bw_shell b) = Some tb" "tab_title tb \<noteq> T" "T \<noteq> []"
          "webview_present (bw_shell b)" "0 < n"
  shows "snd (pollRun hid ts (replicate n T) b) = 1 \<and> bw_interval (fst (pollRun hid ts (replicate n T) b)) \<and>
         map_option tab_title (active_tab (bw_shell (fst (pollRun hid ts (replicate n T) b)))) = Some T"
proof -
  obtain m where n: "n = Suc m" using assms(6) by (cases n) auto
  let ?b = "fst (pollTick hid ts T b)"
  have c: "snd (pollTick hid ts T b)" "bw_interval ?b"
      "active_tab (bw_shell ?b) = Some (tb\<lparr>tab_title := T, tab_isLoading := False\<rparr>)"
    using pollTick_commit [OF assms(1-3,5), of hid ts] assms(4) by (simp_all add: str_or_def)
  then have "pollRun hid ts (replicate m T) ?b = (?b, 0)" by (simp add: pollRun_quiet)
  with c show ?thesis unfolding n by (cases "pollTick hid ts T b") simp
qed

lemma webview_present_title:
  "active_tab sh = Some tb \<Longrightarrow> active_tab sh' = Some (tb\<lparr>tab_title := x, tab_isLoading := y\<rparr>) \<Longrightarrow>
     webview_present sh' = webview_present sh"
  by (simp add: webview_present_def)

text \<open>Claim C37: while the page reports an empty title, every tick of the interval commits an unchanged tab, re-rendering the application every 100 ms without end.\<close>

lemma poll_rerenders_untitled:
  assumes "bw_interval b" "active_tab (bw_shell b) = Some tb" "tab_title tb \<noteq> []" "webview_present (bw_shell b)"
  shows "snd (pollRun hid ts (replicate n []) b) = n \<and> bw_interval (fst (pollRun hid ts (replicate n []) b))"
  using assms
proof (induction n arbitrary: b tb)
  case 0
  then show ?case by simp
next
  case (Suc n)
  let ?b = "fst (pollTick hid ts [] b)"
  have c: "snd (pollTick hid ts [] b)" "bw_interval ?b"
      "active_tab (bw_shell ?b) = Some (tb\<lparr>tab_title := tab_title tb, tab_isLoading := False\<rparr>)"
    using pollTick_commit [OF Suc.prems(1,2) _ Suc.prems(4), of "[]" hid ts] Suc.prems(3) by (simp_all add: str_or_def)
  moreover have "webview_present (bw_shell ?b)"
    using webview_present_title [OF Suc.prems(2) c(3)] Suc.prems(4) by simp
  ultimately have "snd (pollRun hid ts (replicate n []) ?b) = n \<and> bw_interval (fst (pollRun hid ts (replicate n []) ?b))"
    using Suc.IH [of ?b "tb\<lparr>tab_title := tab_title tb, tab_isLoading := False\<rparr>"] Suc.prems(3) by simp
  with c(1) show ?case
    by (cases "pollTick hid ts [] b", cases "pollRun hid ts (replicate n []) ?b") simp
qed

subsection \<open>Instances\<close>

lemma demo_facts:
  "active_tab (bw_shell demo_bw) = Some demo_tab" "bw_interval demo_bw" "webview_present (bw_shell demo_bw)"
  "sh_history (bw_shell demo_bw) = []"
  by (simp_all add: demo_bw_def demo_tab_def tabEffect_def bw_mount_def active_tab_def webview_present_def)

lemma failLoad_handler_witness:
  "sh_history (bw_shell (handleEvent ''h'' 5 (FailLoad (-105) ''ERR_NAME_NOT_RESOLVED'' ''https://b.org'') demo_bw)) =
     [\<lparr>h_id = ''h'', h_title = ''Error loading page'', h_url = ''https://b.org'', h_favicon = tab_favicon demo_tab, h_timestamp = 5\<rparr>]"
proof -
  have "external_url ''https://b.org''" by (simp add: external_url_def)
  from failLoad_handler [OF demo_facts(1) this, of "''h''" 5 _ "-105"] demo_facts(4)
  show ?thesis by simp
qed

lemma responseDetails_handler_witness:
  "handleEvent ''h'' 5 (ResponseDetails 404 ''image'' ''Not Found'' ''https://a.org/x.png'' ''https://a.org/x.png'') demo_bw = demo_bw"
proof -
  have "\<not> str_includes (map lower ''image'') ''main''" "''https://a.org/x.png'' \<noteq> tab_url demo_tab"
    by (simp_all add: lower_def demo_tab_def)
  with responseDetails_handler [OF demo_facts(1), of "''image''" "''https://a.org/x.png''" "''https://a.org/x.png''" "''h''" 5 404 "''Not Found''"]
  show ?thesis by blast
qed


lemma poll_commits_once_witness:
  "snd (pollRun ''h'' 5 (replicate 3 ''A'') demo_bw) = 1"
  using poll_commits_once [OF demo_facts(2,1) _ _ demo_facts(3), of "''A''" 3 "''h''" 5]
  by (simp add: demo_tab_def)

lemma poll_rerenders_untitled_witness:
  "snd (pollRun ''h'' 5 (replicate 50 []) demo_bw) = 50"
  using poll_rerenders_untitled [OF demo_facts(2,1) _ demo_facts(3), of "''h''" 5 50]
  by (simp add: demo_tab_def)

end
