(* ===== verification/Prefs.thy ===== *)
theory Prefs
  imports Tabs History Urls "HOL-Library.AList"
begin

text \<open>
  The settings of the browser: App.jsx's preference state (lines 151--230 and
  245--261), each handler writing \<open>localStorage\<close> and, for the three settings the main
  process uses, sending them over IPC; the main process's copy of those three
  (\<open>src/main.js\<close>, lines 117--143) and the request hooks that read it (lines 213--229);
  and the Settings page's own handlers (\<open>Settings.jsx\<close>, lines 42--63, the zoom select
  of lines 144--156).  \<open>localStorage\<close> is a map from keys to strings; a boolean is
  stored as \<open>"true"\<close>/\<open>"false"\<close>, a number as \<open>String(x)\<close>.
\<close>

type_synonym store = "string \<Rightarrow> string option"

text \<open>The main process's configuration (\<open>let adBlockEnabled\<close>, \<open>downloadPath\<close>,
  \<open>dntEnabled\<close>).\<close>

record host =
  hs_adBlock :: bool
  hs_dnt :: bool
  hs_downloadPath :: string

record prefs =
  p_theme :: "string option"
  p_showBookmarksBar :: bool
  p_zoomLevel :: jsnum
  p_homepage :: url
  p_searchEngine :: string
  p_downloadPath :: string
  p_adBlock :: bool
  p_dnt :: bool
  p_layoutMode :: string
  p_sidebarOpen :: bool
  p_store :: store
  p_host :: host

subsection \<open>Numbers and booleans in the store\<close>

definition js_bool_str :: "bool \<Rightarrow> string" where
  "js_bool_str b = (if b then ''true'' else ''false'')"

text \<open>\<open>parseFloat\<close> on the strings the store can hold for a number: a decimal
  literal \<open>digits[.digits]\<close>, given as the canonical \<open>String\<close> of its value (the
  fraction's trailing zeros and a bare point removed, leading zeros of the integer part
  removed); anything else is \<open>NaN\<close>, \<open>None\<close>.\<close>

definition parseFloat :: "string \<Rightarrow> jsnum option" where
  "parseFloat s =
     (let ip = takeWhile is_digit s; rest = drop (length ip) s;
          fp = (if rest \<noteq> [] \<and> hd rest = CHR ''.'' then tl rest else []);
          ok = ip \<noteq> [] \<and> (rest = [] \<or> (hd rest = CHR ''.'' \<and> list_all is_digit fp));
          ip' = (case dropWhile (\<lambda>c. c = CHR ''0'') ip of [] \<Rightarrow> ''0'' | d \<Rightarrow> d);
          fp' = rev (dropWhile (\<lambda>c. c = CHR ''0'') (rev fp))
      in if ok then Some (if fp' = [] then ip' else ip' @ CHR ''.'' # fp') else None)"

text \<open>\<open>parseFloat(x) || 1.0\<close>: \<open>NaN\<close> and \<open>0\<close> are falsy.\<close>

definition zoom_or_default :: "string option \<Rightarrow> jsnum" where
  "zoom_or_default v = (case Option.bind v parseFloat of Some z \<Rightarrow> if z = ''0'' then ''1'' else z | None \<Rightarrow> ''1'')"

subsection \<open>Start-up\<close>

text \<open>The \<open>useState\<close> initialisers (lines 151--155, 191--193, 245--247) and the mount
  effect (lines 195--212): the three main-process settings are pushed, and the theme is
  set from the store, where \<open>getItem\<close> answers \<open>null\<close>, never \<open>undefined\<close>.  The main
  process starts with blocking and DNT off and the system downloads folder.\<close>

definition host_init :: "string \<Rightarrow> host" where
  "host_init dl = \<lparr>hs_adBlock = False, hs_dnt = False, hs_downloadPath = dl\<rparr>"

definition loadPrefs :: "store \<Rightarrow> host \<Rightarrow> prefs" where
  "loadPrefs st h =
     (let dp = (case st ''downloadPath'' of Some p \<Rightarrow> p | None \<Rightarrow> []);
          ab = (st ''adBlockEnabled'' = Some ''true''); dnt = (st ''dntEnabled'' = Some ''true'')
      in \<lparr>p_theme = st ''theme'', p_showBookmarksBar = (st ''showBookmarksBar'' \<noteq> Some ''false''),
          p_zoomLevel = zoom_or_default (st ''zoomLevel''),
          p_homepage = (case st ''homepage'' of Some u \<Rightarrow> str_or u NEWTAB_URL | None \<Rightarrow> NEWTAB_URL),
          p_searchEngine = (case st ''searchEngine'' of Some u \<Rightarrow> str_or u DEFAULT_ENGINE | None \<Rightarrow> DEFAULT_ENGINE),
          p_downloadPath = dp, p_adBlock = ab, p_dnt = dnt,
          p_layoutMode = (case st ''layoutMode'' of Some m \<Rightarrow> str_or m ''sidebar'' | None \<Rightarrow> ''sidebar''),
          p_sidebarOpen = (st ''isSidebarOpen'' \<noteq> Some ''false''),
          p_store = st,
          p_host = h\<lparr>hs_downloadPath := (if dp \<noteq> [] then dp else hs_downloadPath h), hs_adBlock := ab, hs_dnt := dnt\<rparr>\<rparr>)"

subsection \<open>The handlers\<close>

definition toggleTheme :: "prefs \<Rightarrow> prefs" where
  "toggleTheme p =
     (if p_theme p = Some ''light'' then p\<lparr>p_theme := Some ''dark'', p_store := (p_store p)(''theme'' \<mapsto> ''dark'')\<rparr>
      else if p_theme p = Some ''dark'' then p\<lparr>p_theme := Some ''light'', p_store := (p_store p)(''theme'' \<mapsto> ''light'')\<rparr>
      else p)"

definition setShowBookmarksBar :: "bool \<Rightarrow> prefs \<Rightarrow> prefs" where
  "setShowBookmarksBar b p = p\<lparr>p_showBookmarksBar := b, p_store := (p_store p)(''showBookmarksBar'' \<mapsto> js_bool_str b)\<rparr>"

definition setZoomLevel :: "jsnum \<Rightarrow> prefs \<Rightarrow> prefs" where
  "setZoomLevel z p = p\<lparr>p_zoomLevel := z, p_store := (p_store p)(''zoomLevel'' \<mapsto> z)\<rparr>"

definition setHomepage :: "url \<Rightarrow> prefs \<Rightarrow> prefs" where
  "setHomepage u p = p\<lparr>p_homepage := u, p_store := (p_store p)(''homepage'' \<mapsto> u)\<rparr>"

definition setSearchEngine :: "string \<Rightarrow> prefs \<Rightarrow> prefs" where
  "setSearchEngine u p = p\<lparr>p_searchEngine := u, p_store := (p_store p)(''searchEngine'' \<mapsto> u)\<rparr>"

definition setDownloadPath :: "string \<Rightarrow> prefs \<Rightarrow> prefs" where
  "setDownloadPath d p = p\<lparr>p_downloadPath := d, p_store := (p_store p)(''downloadPath'' \<mapsto> d),
                           p_host := (p_host p)\<lparr>hs_downloadPath := d\<rparr>\<rparr>"

definition setAdBlockEnabled :: "bool \<Rightarrow> prefs \<Rightarrow> prefs" where
  "setAdBlockEnabled e p = p\<lparr>p_adBlock := e, p_store := (p_store p)(''adBlockEnabled'' \<mapsto> js_bool_str e),
                             p_host := (p_host p)\<lparr>hs_adBlock := e\<rparr>\<rparr>"

definition setDntEnabled :: "bool \<Rightarrow> prefs \<Rightarrow> prefs" where
  "setDntEnabled e p = p\<lparr>p_dnt := e, p_store := (p_store p)(''dntEnabled'' \<mapsto> js_bool_str e),
                         p_host := (p_host p)\<lparr>hs_dnt := e\<rparr>\<rparr>"

definition toggleSidebarVisibility :: "prefs \<Rightarrow> prefs" where
  "toggleSidebarVisibility p =
     (if p_sidebarOpen p then p\<lparr>p_sidebarOpen := False, p_store := (p_store p)(''isSidebarOpen'' \<mapsto> ''false'')\<rparr>
      else p\<lparr>p_sidebarOpen := True, p_store := (p_store p)(''isSidebarOpen'' \<mapsto> ''true'')\<rparr>)"

subsection \<open>The Settings page\<close>

text \<open>The zoom options (lines 150--155); the select shows the option whose value equals
  \<open>String(zoomLevel)\<close>, the first one when none does; choosing one sets
  \<open>parseFloat(value)\<close>.\<close>

definition zoom_options :: "string list" where
  "zoom_options = [''0.8'', ''0.9'', ''1.0'', ''1.1'', ''1.25'', ''1.5'']"

definition zoomShown :: "jsnum \<Rightarrow> string" where
  "zoomShown z = (case find (\<lambda>x. x = z) zoom_options of Some x \<Rightarrow> x | None \<Rightarrow> hd zoom_options)"

definition chooseZoom :: "string \<Rightarrow> prefs \<Rightarrow> prefs" where
  "chooseZoom v p = (case parseFloat v of Some z \<Rightarrow> setZoomLevel z p | None \<Rightarrow> p)"

text \<open>\<open>handleSelectDownloadFolder\<close> (lines 48--51) with the dialog's answer
  (\<open>select-download-folder\<close>, main.js lines 121--130): a cancelled dialog or no path
  gives \<open>null\<close> and nothing changes.\<close>

definition selectDownloadFolder :: "bool \<Rightarrow> string list \<Rightarrow> string option" where
  "selectDownloadFolder canceled paths = (if \<not> canceled \<and> paths \<noteq> [] then Some (hd paths) else None)"

definition handleSelectDownloadFolder :: "bool \<Rightarrow> string list \<Rightarrow> prefs \<Rightarrow> prefs" where
  "handleSelectDownloadFolder canceled paths p =
     (case selectDownloadFolder canceled paths of Some d \<Rightarrow> if d \<noteq> [] then setDownloadPath d p else p | None \<Rightarrow> p)"

text \<open>\<open>clearData(key)\<close> (lines 53--63) on the stored history, after the user's answer
  to \<open>confirm\<close>; clearing history reloads the window.\<close>

definition clearData :: "string \<Rightarrow> bool \<Rightarrow> hentry list \<Rightarrow> store \<Rightarrow> hentry list \<times> store" where
  "clearData key confirmed h st =
     (if \<not> confirmed then (h, st)
      else if key = ''history'' then (clearHistory h, st)
      else if key = ''bookmarks'' then (h, st(''bookmarks'' := None))
      else (h, st))"

subsection \<open>The main process\<close>

text \<open>The request hooks (lines 213--229): a request matching one of the ad patterns is
  cancelled when blocking is on; with DNT on, the headers \<open>DNT\<close> and \<open>Sec-GPC\<close> are
  set to \<open>1\<close>.  A pattern \<open>*://*.d/p*\<close> matches a host that is \<open>d\<close> or ends in
  \<open>.d\<close> and a path starting with \<open>/p\<close>.\<close>

definition adUrls :: "(string \<times> string) list" where
  "adUrls = [(''doubleclick.net'', ''/''), (''googlesyndication.com'', ''/''), (''googleadservices.com'', ''/''),
             (''adtago.s3.amazonaws.com'', ''/''), (''adnxs.com'', ''/''), (''ads.google.com'', ''/''),
             (''google-analytics.com'', ''/''), (''facebook.com'', ''/tr''), (''hotjar.com'', ''/''),
             (''criteo.com'', ''/''), (''moatads.com'', ''/''), (''taboola.com'', ''/''), (''outbrain.com'', ''/''),
             (''amazon-adsystem.com'', ''/''), (''scorecardresearch.com'', ''/''), (''zedo.com'', ''/''),
             (''pubmatic.com'', ''/''), (''openx.net'', ''/''), (''adroll.com'', ''/''), (''quantserve.com'', ''/''),
             (''rubiconproject.com'', ''/''), (''chartbeat.com'', ''/''), (''clicktale.net'', ''/''),
             (''clarity.ms'', ''/''), (''adservice.google.com'', ''/''), (''adsystem.com'', ''/''),
             (''advertising.com'', ''/''), (''carbonads.net'', ''/''), (''adligature.com'', ''/''),
             (''adcolony.com'', ''/''), (''admob.com'', ''/''), (''appsflyer.com'', ''/''),
             (''unityads.unity3d.com'', ''/''), (''applovin.com'', ''/''), (''vungle.com'', ''/''), (''ironsource.com'', ''/'')]"

definition pattern_matches :: "string \<times> string \<Rightarrow> url \<Rightarrow> bool" where
  "pattern_matches pat u =
     (case pat of (d, pp) \<Rightarrow>
        let h = url_hostname u in
        url_parses u \<and> (h = d \<or> startsWith (rev h) (rev (CHR ''.'' # d))) \<and> startsWith (url_pathname u) pp)"

definition onBeforeRequest :: "host \<Rightarrow> url \<Rightarrow> bool" where
  "onBeforeRequest h u = (list_ex (\<lambda>pat. pattern_matches pat u) adUrls \<and> hs_adBlock h)"

definition onBeforeSendHeaders :: "host \<Rightarrow> (string \<times> string) list \<Rightarrow> (string \<times> string) list" where
  "onBeforeSendHeaders h hdrs =
     (if hs_dnt h then AList.update ''Sec-GPC'' ''1'' (AList.update ''DNT'' ''1'' hdrs) else hdrs)"

text \<open>The search engines the Settings page offers (lines 171--173).\<close>

definition engine_options :: "string list" where
  "engine_options = [''https://www.google.com/search?q='', ''https://www.bing.com/search?q='', ''https://duckduckgo.com/?q='']"

text \<open>The main process's view of the renderer's settings: what it should hold when the
  two are in sync, with \<open>dl\<close> its initial downloads folder.\<close>

definition host_of :: "string \<Rightarrow> prefs \<Rightarrow> host" where
  "host_of dl p = \<lparr>hs_adBlock = p_adBlock p, hs_dnt = p_dnt p,
                   hs_downloadPath = (if p_downloadPath p \<noteq> [] then p_downloadPath p else dl)\<rparr>"

subsection \<open>Runs\<close>

text \<open>Start-up from any stored settings and a main process with downloads folder
  \<open>dl\<close>, then the handlers the UI reaches, in any order: the Settings page's controls
  (theme, bookmarks bar, zoom select, homepage save, engine select, folder dialog,
  blocker and DNT toggles) and the sidebar toggle.\<close>

inductive prefs_reach :: "string \<Rightarrow> prefs \<Rightarrow> bool" for dl where
  start: "prefs_reach dl (loadPrefs st (host_init dl))"
| theme: "prefs_reach dl p \<Longrightarrow> prefs_reach dl (toggleTheme p)"
| bar: "prefs_reach dl p \<Longrightarrow> prefs_reach dl (setShowBookmarksBar b p)"
| zoom: "prefs_reach dl p \<Longrightarrow> v \<in> set zoom_options \<Longrightarrow> prefs_reach dl (chooseZoom v p)"
| home: "prefs_reach dl p \<Longrightarrow> prefs_reach dl (setHomepage u p)"
| engine: "prefs_reach dl p \<Longrightarrow> e \<in> set engine_options \<Longrightarrow> prefs_reach dl (setSearchEngine e p)"
| folder: "prefs_reach dl p \<Longrightarrow> prefs_reach dl (handleSelectDownloadFolder c ps p)"
| adblock: "prefs_reach dl p \<Longrightarrow> prefs_reach dl (setAdBlockEnabled e p)"
| dnt: "prefs_reach dl p \<Longrightarrow> prefs_reach dl (setDntEnabled e p)"
| sidebar: "prefs_reach dl p \<Longrightarrow> prefs_reach dl (toggleSidebarVisibility p)"

subsection \<open>The main process mirrors the settings\<close>

lemma parseFloat_options: "x \<in> set zoom_options \<Longrightarrow> \<exists>z. parseFloat x = Some z \<and> parseFloat z = Some z \<and> z \<noteq> ''0''"
  by (auto simp: zoom_options_def parseFloat_def is_digit_def)

lemma host_synced_start: "p_host (loadPrefs st (host_init dl)) = host_of dl (loadPrefs st (host_init dl))"
  by (simp add: loadPrefs_def host_init_def host_of_def Let_def)

text \<open>Claim C38: in every run of the settings UI the main process's configuration (blocking, DNT, download folder) is the function host_of of the renderer's settings: the IPC pushes keep the cached copy in step.\<close>

lemma host_synced:
  "prefs_reach dl p \<Longrightarrow> p_host p = host_of dl p"
proof (induction rule: prefs_reach.induct)
  case (start st)
  then show ?case by (rule host_synced_start)
next
  case (zoom p v)
  then show ?case by (auto simp: chooseZoom_def setZoomLevel_def host_of_def split: option.splits)
next
  case (folder p c ps)
  then show ?case
    by (auto simp: handleSelectDownloadFolder_def setDownloadPath_def host_of_def split: option.splits)
qed (simp_all add: host_of_def toggleTheme_def setShowBookmarksBar_def setHomepage_def setSearchEngine_def
       setAdBlockEnabled_def setDntEnabled_def toggleSidebarVisibility_def)

subsection \<open>Reloading restores the settings\<close>

lemma p_store_loadPrefs [simp]: "p_store (loadPrefs st h) = st"
  by (simp add: loadPrefs_def Let_def)

lemma loadPrefs_host_idem [simp]:
  "loadPrefs st (p_host (loadPrefs st h)) = loadPrefs st h"
  by (simp add: loadPrefs_def Let_def)

lemma homepage_loadPrefs_nonempty: "p_homepage (loadPrefs st h) \<noteq> []"
  by (simp add: loadPrefs_def Let_def str_or_def split: option.splits)

lemma toggleTheme_other: "p_theme p \<notin> {Some ''light'', Some ''dark''} \<Longrightarrow> toggleTheme p = p"
  by (simp add: toggleTheme_def)

lemma reload_theme:
  "p_theme p \<in> {Some ''light'', Some ''dark''} \<Longrightarrow>
   loadPrefs (p_store (toggleTheme p)) (p_host (toggleTheme p)) =
     (loadPrefs (p_store p) (p_host p))\<lparr>p_theme := p_theme (toggleTheme p), p_store := p_store (toggleTheme p)\<rparr>"
  by (auto simp: toggleTheme_def loadPrefs_def Let_def)

lemma reload_bar:
  "loadPrefs (p_store (setShowBookmarksBar b p)) (p_host (setShowBookmarksBar b p)) =
     (loadPrefs (p_store p) (p_host p))\<lparr>p_showBookmarksBar := b, p_store := p_store (setShowBookmarksBar b p)\<rparr>"
  by (simp add: setShowBookmarksBar_def loadPrefs_def Let_def js_bool_str_def)

lemma reload_zoom:
  "parseFloat z = Some z \<Longrightarrow> z \<noteq> ''0'' \<Longrightarrow>
   loadPrefs (p_store (setZoomLevel z p)) (p_host (setZoomLevel z p)) =
     (loadPrefs (p_store p) (p_host p))\<lparr>p_zoomLevel := z, p_store := p_store (setZoomLevel z p)\<rparr>"
  by (simp add: setZoomLevel_def loadPrefs_def Let_def zoom_or_default_def)

lemma reload_home:
  "loadPrefs (p_store (setHomepage u p)) (p_host (setHomepage u p)) =
     (loadPrefs (p_store p) (p_host p))\<lparr>p_homepage := str_or u NEWTAB_URL, p_store := p_store (setHomepage u p)\<rparr>"
  by (simp add: setHomepage_def loadPrefs_def Let_def)

lemma reload_engine:
  "loadPrefs (p_store (setSearchEngine e p)) (p_host (setSearchEngine e p)) =
     (loadPrefs (p_store p) (p_host p))\<lparr>p_searchEngine := str_or e DEFAULT_ENGINE, p_store := p_store (setSearchEngine e p)\<rparr>"
  by (simp add: setSearchEngine_def loadPrefs_def Let_def)

lemma reload_folder:
  "d \<noteq> [] \<Longrightarrow>
   loadPrefs (p_store (setDownloadPath d p)) (p_host (setDownloadPath d p)) =
     (loadPrefs (p_store p) (p_host p))\<lparr>p_downloadPath := d, p_store := p_store (setDownloadPath d p),
        p_host := (p_host (loadPrefs (p_store p) (p_host p)))\<lparr>hs_downloadPath := d\<rparr>\<rparr>"
  by (simp add: setDownloadPath_def loadPrefs_def Let_def)

lemma reload_adblock:
  "loadPrefs (p_store (setAdBlockEnabled e p)) (p_host (setAdBlockEnabled e p)) =
     (loadPrefs (p_store p) (p_host p))\<lparr>p_adBlock := e, p_store := p_store (setAdBlockEnabled e p),
        p_host := (p_host (loadPrefs (p_store p) (p_host p)))\<lparr>hs_adBlock := e\<rparr>\<rparr>"
  by (simp add: setAdBlockEnabled_def loadPrefs_def Let_def js_bool_str_def)

lemma reload_dnt:
  "loadPrefs (p_store (setDntEnabled e p)) (p_host (setDntEnabled e p)) =
     (loadPrefs (p_store p) (p_host p))\<lparr>p_dnt := e, p_store := p_store (setDntEnabled e p),
        p_host := (p_host (loadPrefs (p_store p) (p_host p)))\<lparr>hs_dnt := e\<rparr>\<rparr>"
  by (simp add: setDntEnabled_def loadPrefs_def Let_def js_bool_str_def)

lemma reload_sidebar:
  "loadPrefs (p_store (toggleSidebarVisibility p)) (p_host (toggleSidebarVisibility p)) =
     (loadPrefs (p_store p) (p_host p))\<lparr>p_sidebarOpen := \<not> p_sidebarOpen p, p_store := p_store (toggleSidebarVisibility p)\<rparr>"
  by (simp add: toggleSidebarVisibility_def loadPrefs_def Let_def)

text \<open>Claim C39: after any sequence of settings changes, restarting from the stored values gives back the same settings, except that a saved empty homepage comes back as the new-tab page.\<close>

lemma reload_roundtrip:
  "prefs_reach dl p \<Longrightarrow>
     loadPrefs (p_store p) (p_host p) = (if p_homepage p = [] then p\<lparr>p_homepage := NEWTAB_URL\<rparr> else p)"
proof (induction rule: prefs_reach.induct)
  case (start st)
  then show ?case by (simp add: homepage_loadPrefs_nonempty)
next
  case (theme p)
  then show ?case
    by (cases "p_theme p \<in> {Some ''light'', Some ''dark''}")
       (simp_all only: reload_theme toggleTheme_other, auto simp: toggleTheme_def)
next
  case (bar p b)
  then show ?case by (simp only: reload_bar) (simp add: setShowBookmarksBar_def)
next
  case (zoom p v)
  then obtain z where z: "parseFloat v = Some z" "parseFloat z = Some z" "z \<noteq> ''0''"
    using parseFloat_options by blast
  then have cz: "chooseZoom v p = setZoomLevel z p" by (simp add: chooseZoom_def)
  from zoom.IH show ?case by (simp only: cz reload_zoom [OF z(2,3)]) (simp add: setZoomLevel_def)
next
  case (home p u)
  then show ?case by (simp only: reload_home) (simp add: setHomepage_def str_or_def)
next
  case (engine p e)
  moreover have "e \<noteq> []" using engine.hyps(2) by (auto simp: engine_options_def)
  ultimately show ?case by (simp only: reload_engine) (simp add: setSearchEngine_def str_or_def)
next
  case (folder p c ps)
  show ?case
  proof (cases "\<exists>d. selectDownloadFolder c ps = Some d \<and> d \<noteq> []")
    case True
    then obtain d where d: "selectDownloadFolder c ps = Some d" "d \<noteq> []" by blast
    then have hs: "handleSelectDownloadFolder c ps p = setDownloadPath d p" by (simp add: handleSelectDownloadFolder_def)
    from folder.IH show ?thesis by (simp only: hs reload_folder [OF d(2)]) (simp add: setDownloadPath_def)
  next
    case False
    then have "handleSelectDownloadFolder c ps p = p"
      by (auto simp: handleSelectDownloadFolder_def split: option.splits)
    with folder.IH show ?thesis by simp
  qed
next
  case (adblock p e)
  then show ?case by (simp only: reload_adblock) (simp add: setAdBlockEnabled_def)
next
  case (dnt p e)
  then show ?case by (simp only: reload_dnt) (simp add: setDntEnabled_def)
next
  case (sidebar p)
  then show ?case by (simp only: reload_sidebar) (simp add: toggleSidebarVisibility_def)
qed

subsection \<open>The theme toggle and the zoom select\<close>

text \<open>Claim C40: with no theme stored (a fresh install) the start-up sets the theme to null, and the theme toggle then never changes anything.\<close>

lemma theme_stuck_fresh_install:
  "st ''theme'' = None \<Longrightarrow> (toggleTheme ^^ n) (loadPrefs st h) = loadPrefs st h"
proof (induction n)
  case 0
  then show ?case by simp
next
  case (Suc n)
  have "p_theme (loadPrefs st h) = None" using Suc.prems by (simp add: loadPrefs_def Let_def)
  with Suc show ?case by (simp add: toggleTheme_other)
qed

lemma zoom_default_shows_80:
  "zoomShown (p_zoomLevel (loadPrefs Map.empty h)) = ''0.8'' \<and>
   zoomShown (p_zoomLevel (chooseZoom ''1.0'' p)) = ''0.8''"
  by (simp add: zoomShown_def zoom_options_def loadPrefs_def Let_def zoom_or_default_def chooseZoom_def
                setZoomLevel_def parseFloat_def is_digit_def)

lemma theme_stuck_fresh_install_witness:
  "(toggleTheme ^^ 3) (loadPrefs Map.empty (host_init ''/dl'')) = loadPrefs Map.empty (host_init ''/dl'')"
  by (rule theme_stuck_fresh_install) simp

lemma reload_roundtrip_witness:
  "loadPrefs (p_store (setDntEnabled True (loadPrefs Map.empty (host_init ''/dl''))))
             (p_host (setDntEnabled True (loadPrefs Map.empty (host_init ''/dl'')))) =
   setDntEnabled True (loadPrefs Map.empty (host_init ''/dl''))"
proof -
  have r: "prefs_reach ''/dl'' (setDntEnabled True (loadPrefs Map.empty (host_init ''/dl'')))"
    by (intro prefs_reach.dnt prefs_reach.start)
  have "p_homepage (setDntEnabled True (loadPrefs Map.empty (host_init ''/dl''))) \<noteq> []"
    by (simp add: setDntEnabled_def homepage_loadPrefs_nonempty)
  with reload_roundtrip [OF r] show ?thesis by simp
qed

lemma host_synced_witness:
  "p_host (setAdBlockEnabled True (loadPrefs Map.empty (host_init ''/dl''))) =
   host_of ''/dl'' (setAdBlockEnabled True (loadPrefs Map.empty (host_init ''/dl'')))"
  by (intro host_synced prefs_reach.adblock prefs_reach.start)

end
