(* ===== verification/Pages.thy ===== *)
theory Pages
  imports History Urls Coordinator "HOL-Library.Sublist"
begin

text \<open>
  The logic of three internal pages: the History page's search filter, day grouping
  and deletion (\<open>History.jsx\<close>, lines 13--51), the find bar's commands to the webview
  (\<open>FindBar.jsx\<close>, lines 5--55) and the Downloads page's size unit
  (\<open>Downloads.jsx\<close>, \<open>formatBytes\<close>, lines 37--44).
\<close>

subsection \<open>The History page\<close>

record hist_view =
  hv_history :: "hentry list"
  hv_searchTerm :: string

text \<open>The search (lines 27--34): case-insensitive substring of the title or the URL.\<close>

definition historyFilter :: "string \<Rightarrow> hentry list \<Rightarrow> hentry list" where
  "historyFilter term h =
     (if term = [] then h
      else filter (\<lambda>e. str_includes (map lower (h_title e)) (map lower term) \<or>
                       str_includes (map lower (h_url e)) (map lower term)) h)"

text \<open>The grouping (lines 36--51), with the day of a timestamp and the labels of today
  and yesterday as arguments: entries are appended to their label's group, and the groups
  are listed in the order their labels first appear.\<close>

definition day_label :: "(timestamp \<Rightarrow> string) \<Rightarrow> string \<Rightarrow> string \<Rightarrow> timestamp \<Rightarrow> string" where
  "day_label date today yesterday ts =
     (let d = date ts in if d = today then ''Today'' else if d = yesterday then ''Yesterday'' else d)"

fun add_to_group :: "string \<Rightarrow> hentry \<Rightarrow> (string \<times> hentry list) list \<Rightarrow> (string \<times> hentry list) list" where
  "add_to_group l e [] = [(l, [e])]"
| "add_to_group l e ((k, es) # gs) = (if k = l then (k, es @ [e]) # gs else (k, es) # add_to_group l e gs)"

definition groupHistory ::
  "(timestamp \<Rightarrow> string) \<Rightarrow> string \<Rightarrow> string \<Rightarrow> hentry list \<Rightarrow> (string \<times> hentry list) list" where
  "groupHistory date today yesterday h =
     foldl (\<lambda>gs e. add_to_group (day_label date today yesterday (h_timestamp e)) e gs) [] h"

text \<open>Deleting one entry (lines 19--25) and clearing after the confirm dialog (13--17).\<close>

definition deleteItem :: "string \<Rightarrow> hist_view \<Rightarrow> hist_view" where
  "deleteItem i v = v\<lparr>hv_history := deleteEntry i (hv_history v)\<rparr>"

definition clearHistoryPage :: "bool \<Rightarrow> hist_view \<Rightarrow> hist_view" where
  "clearHistoryPage confirmed v = (if confirmed then v\<lparr>hv_history := clearHistory (hv_history v)\<rparr> else v)"

subsection \<open>The find bar\<close>

datatype find_cmd = FindInPage string bool bool | StopFindInPage

record findbar =
  fb_query :: string
  fb_active :: nat
  fb_matches :: nat

text \<open>The handlers call methods of \<open>webviewRef.current\<close>; on an internal page no
  webview is rendered, the ref is empty, and the call throws a \<open>TypeError\<close>.  The result
  is the new state with the commands sent to the webview.\<close>

definition wv_call :: "bool \<Rightarrow> find_cmd list \<Rightarrow> findbar \<Rightarrow> js_exn + findbar \<times> find_cmd list" where
  "wv_call wv cmds fb = (if wv then Inr (fb, cmds) else Inl (TypeError ''webviewRef.current is undefined''))"

definition findSearch :: "bool \<Rightarrow> string \<Rightarrow> findbar \<Rightarrow> js_exn + findbar \<times> find_cmd list" where
  "findSearch wv text fb =
     (let fb' = fb\<lparr>fb_query := text\<rparr> in
      if text = [] then wv_call wv [StopFindInPage] (fb'\<lparr>fb_active := 0, fb_matches := 0\<rparr>)
      else wv_call wv [FindInPage text False True] fb')"

datatype find_key = Enter bool | Escape | OtherKey

text \<open>\<open>handleKeyDown\<close>: Enter finds the next match, Shift+Enter the previous one,
  Escape closes the bar (\<open>None\<close>).\<close>

definition findKey :: "bool \<Rightarrow> find_key \<Rightarrow> findbar \<Rightarrow> js_exn + (findbar option \<times> find_cmd list)" where
  "findKey wv k fb =
     (case k of
        Enter shift \<Rightarrow> (case wv_call wv [FindInPage (fb_query fb) True (\<not> shift)] fb of
                          Inl e \<Rightarrow> Inl e | Inr (fb', cs) \<Rightarrow> Inr (Some fb', cs))
      | Escape \<Rightarrow> Inr (None, [])
      | OtherKey \<Rightarrow> Inr (Some fb, []))"

text \<open>The \<open>found-in-page\<close> listener (lines 12--20).\<close>

definition foundInPage :: "(nat \<times> nat) option \<Rightarrow> findbar \<Rightarrow> findbar" where
  "foundInPage r fb = (case r of Some (a, m) \<Rightarrow> fb\<lparr>fb_active := a, fb_matches := m\<rparr> | None \<Rightarrow> fb)"

subsection \<open>Download sizes\<close>

text \<open>\<open>Math.floor(Math.log(bytes) / Math.log(1024))\<close> as the integer logarithm, and the
  unit \<open>sizes[i]\<close>, \<open>undefined\<close> past the table.\<close>

fun unit_index :: "nat \<Rightarrow> nat" where
  "unit_index b = (if b < 1024 then 0 else Suc (unit_index (b div 1024)))"

declare unit_index.simps [simp del]

definition formatBytes_unit :: "nat \<Rightarrow> string" where
  "formatBytes_unit b =
     (if b = 0 then ''Bytes''
      else case nth_opt [''Bytes'', ''KB'', ''MB'', ''GB'', ''TB''] (unit_index b) of
             Some u \<Rightarrow> u | None \<Rightarrow> ''undefined'')"

subsection \<open>The History page\<close>

lemma historyFilter_subseq: "subseq (historyFilter t h) h"
  by (simp add: historyFilter_def subseq_filter_left)

lemma mset_add_to_group:
  "mset (concat (map snd (add_to_group l e gs))) = mset (concat (map snd gs)) + {#e#}"
  by (induction l e gs rule: add_to_group.induct) auto

lemma labels_add_to_group: "map fst (add_to_group l e gs) = (if l \<in> set (map fst gs) then map fst gs else map fst gs @ [l])"
  by (induction l e gs rule: add_to_group.induct) auto

lemma groupHistory_foldl:
  "mset (concat (map snd (foldl (\<lambda>gs e. add_to_group (f e) e gs) gs h))) = mset (concat (map snd gs)) + mset h
   \<and> (distinct (map fst gs) \<longrightarrow> distinct (map fst (foldl (\<lambda>gs e. add_to_group (f e) e gs) gs h)))"
  by (induction h arbitrary: gs) (auto simp: mset_add_to_group labels_add_to_group)

lemma groupHistory_partition:
  "mset (concat (map snd (groupHistory date today yesterday h))) = mset h \<and>
   distinct (map fst (groupHistory date today yesterday h))"
  using groupHistory_foldl [of "\<lambda>e. day_label date today yesterday (h_timestamp e)" "[]" h]
  by (simp add: groupHistory_def)

subsection \<open>The find bar\<close>

lemma findSearch_no_webview: "findSearch False t fb = Inl (TypeError ''webviewRef.current is undefined'')"
  by (simp add: findSearch_def wv_call_def Let_def)

lemma findSearch_clears: "findSearch True [] fb = Inr (fb\<lparr>fb_query := [], fb_active := 0, fb_matches := 0\<rparr>, [StopFindInPage])"
  by (simp add: findSearch_def wv_call_def)

subsection \<open>Download sizes\<close>

lemma unit_index_small [simp]: "b < 1024 \<Longrightarrow> unit_index b = 0"
  by (simp add: unit_index.simps)

lemma unit_index_large [simp]: "\<not> b < 1024 \<Longrightarrow> unit_index b = Suc (unit_index (b div 1024))"
  by (simp add: unit_index.simps)

lemma unit_index_bound: "b < 1024 ^ Suc n \<Longrightarrow> unit_index b \<le> n"
proof (induction b arbitrary: n rule: unit_index.induct)
  case (1 b)
  show ?case
  proof (cases "b < 1024")
    case False
    then obtain m where n: "n = Suc m" using "1.prems" by (cases n) auto
    have "b div 1024 < 1024 ^ Suc m" using "1.prems" n by (simp add: div_less_iff_less_mult mult.commute)
    with "1.IH" False n show ?thesis by simp
  qed simp
qed

lemma formatBytes_unit_known: "b < 1024 ^ 5 \<Longrightarrow> formatBytes_unit b \<in> {''Bytes'', ''KB'', ''MB'', ''GB'', ''TB''}"
proof -
  assume "b < 1024 ^ 5"
  then have "unit_index b \<le> 4" using unit_index_bound [of b 4] by simp
  then show ?thesis by (auto simp: formatBytes_unit_def nth_opt_conv le_Suc_eq numeral_eq_Suc)
qed

lemma formatBytes_unit_petabyte: "formatBytes_unit (1024 ^ 5) = ''undefined''"
  by (simp add: formatBytes_unit_def)

end
