(* ===== verification/Spec2Isabelle.thy ===== *)
theory Spec2Isabelle
  imports Tabs History Bookmarks Downloads Urls Shell Coordinator Prefs Pages
begin

text \<open>
  \<^bold>\<open>A verification model of net-browser.\<close>
  net-browser is an Electron browser: a main process (\<open>src/main.js\<close>, with the IPC
  bridge \<open>src/preload.js\<close>) and a React renderer (\<open>src/src/src\<close>) whose root component
  \<open>App.jsx\<close> holds the tabs, bookmarks and settings, renders the address bar
  (\<open>TopBar.jsx\<close>), the tab strip or sidebar, and \<open>BrowserWindow.jsx\<close>, which shows the
  active tab as an internal page or a \<open>webview\<close>.  History, bookmarks and downloads
  live in \<open>localStorage\<close> behind the managers of \<open>utils/\<close>.  The model is a shallow
  embedding: each JavaScript object is a \<open>record\<close>, each handler a total HOL function
  from state to state, ids and clock readings (\<open>Math.random\<close>, \<open>Date.now\<close>) are
  arguments, \<open>setTimeout\<close> callbacks and intervals are explicit state, and the platform
  functions the code calls (\<open>new URL\<close>, \<open>trim\<close>, \<open>encodeURIComponent\<close>,
  \<open>parseFloat\<close>, \<open>String.prototype.replace\<close>) are written after their specifications.

  \<^bold>\<open>Theories and what they model.\<close>
  \<^item> \<open>Prelude\<close>: the JavaScript idioms (\<open>||\<close> as \<open>js_or\<close>/\<open>str_or\<close>,
    \<open>startsWith\<close>, \<open>includes\<close>, \<open>findIndex\<close>, \<open>xs[i]\<close> as \<open>nth_opt\<close>, string
    \<open>replace\<close>) and the list lemmas the components share.
  \<^item> \<open>Tabs\<close>: App.jsx's registry (\<open>tabs\<close>, \<open>activeTab\<close>) with \<open>addTab\<close>,
    \<open>togglePinTab\<close>, \<open>closeTab\<close> and its pending \<open>setTimeout\<close> activations
    (\<open>timers\<close>, \<open>fireTimer\<close>, \<open>drain\<close>); runs where callbacks settle after each
    command (\<open>settled\<close>) and where they interleave (\<open>interleaved\<close>).
  \<^item> \<open>History\<close>, \<open>Bookmarks\<close>: HistoryManager and BookmarksManager on the stored arrays.
  \<^item> \<open>Downloads\<close>: DownloadsManager, main.js's \<open>will-download\<close> listener with the item's
    \<open>updated\<close>/\<open>done\<close> events, App's re-dispatch and the Downloads page's list.
  \<^item> \<open>Urls\<close>: the address bar's resolver (\<open>TopBar.jsx\<close> \<open>handleKeyDown\<close>), its
    display of the tab URL, and NewTab's search box, over a model of URL parsing.
  \<^item> \<open>Shell\<close>: App's \<open>updateTab\<close> (the only history write), \<open>smartNavigate\<close> with
    \<open>normalize\<close>, and the address bar and bookmark clicks that reach it.
  \<^item> \<open>Coordinator\<close>: BrowserWindow.jsx, its webview listeners bound by an effect with
    \<open>[]\<close> dependencies, the eight handlers, the title-polling interval, the internal
    title effect and the render dispatch; \<open>bw_reach\<close> are its runs inside the app.
  \<^item> \<open>Prefs\<close>: App's settings and their \<open>localStorage\<close> keys, the Settings page's
    controls, main.js's copy of the three shared settings and its request hooks;
    \<open>prefs_reach\<close> are the runs of the settings UI.
  \<^item> \<open>Pages\<close>: the History page's search and day grouping, the find bar's commands to
    the webview, and the size unit of the Downloads page.

  \<^bold>\<open>What is proved.\<close>
  The registry keeps distinct ids, a non-empty list and pinned tabs first in every run;
  in settled runs exactly one tab is active, while an interleaved second close loses the
  active tab.  Pinning is a stable partition; closing activates the previous tab.  The
  history keeps the newest 1000 external visits and ignores a repeated visit; bookmarks
  stay unique by URL and toggling twice restores them.  The Downloads page shows only the
  last message's record, a terminal state is not absorbing and \<open>done\<close> is reported
  once.  The resolver's spec scenarios, the round trip of the search query through
  \<open>encodeURIComponent\<close>, a length bound, the early return on blank input and the
  redisplay round trip are proved, with the cases where it departs from the spec.
  Navigation activates a matching tab for singleton targets, reuses a blank tab or opens a
  new one, writes no history, and is one registry command (\<open>smartNavigate_cmd\<close>).  In the
  coordinator, the listeners are never bound, so all webview events are dropped; the
  handlers' behaviour is proved for the spec's scenarios; the polling interval commits a
  title once and never stops.  The main process's settings are the function \<open>host_of\<close>
  of the renderer's (refinement), and reloading from \<open>localStorage\<close> restores the
  settings (round trip), while a fresh install leaves the theme toggle dead.  The History
  page's search keeps a subsequence and its grouping partitions the entries; the find bar
  throws on internal pages; sizes of 1024 to the 5th power bytes and more get the unit \<open>undefined\<close>.

  \<^bold>\<open>Bounds and fuel.\<close>  No fuel is needed: every loop of the code is over a finite
  list (\<open>map\<close>, \<open>filter\<close>, \<open>find\<close>) or, for the 100\,ms interval, over the list of
  titles observed at its ticks (\<open>pollRun\<close>), so all functions are total by structural
  recursion.  The constants 1000 (history) and 100 (downloads) are the code's.

  \<^bold>\<open>Not modelled.\<close>  Window creation and controls, global shortcuts, the context menu
  and the drag-state debounce of main.js only call Electron and hold no state the
  properties read.  The webview's own navigation history (back, forward, reload), page
  loading and script injection are the engine's.  Rendering beyond the choice of view
  (CSS, icons, the tab strip's and sidebar's layout) has no state.  The platform functions
  are modelled on the inputs the code gives them: URL parsing without percent-encoding of
  paths or dot-segment removal, \<open>parseFloat\<close> on decimal literals, \<open>trim\<close> on ASCII
  white space.
\<close>

end
